theory Spec2Isabelle
  imports Main "HOL-Library.Word"
begin

section \<open>Autograd graph nodes (function.h) and the profiler (profiler.cpp)\<close>

text \<open>
  Machine integers: \<open>uint32_t\<close> is \<open>32 word\<close>, \<open>uint64_t\<close> and \<open>int64_t\<close> are
  \<open>64 word\<close>. Container sizes and \<open>size_t\<close> indices are natural numbers: the only
  arithmetic the source does on them is \<open>i++\<close> under the guard \<open>i < range.second\<close>,
  which cannot wrap. The conversion of a size to \<open>uint32_t\<close> (in \<open>num_inputs\<close>,
  \<open>num_outputs\<close> and \<open>add_input_metadata\<close>) is \<open>word_of_nat\<close>, which truncates
  modulo \<open>2 ^ 32\<close> as the C++ conversion does.
\<close>

type_synonym uint32_t = "32 word"
type_synonym uint64_t = "64 word"
type_synonym int64_t = "64 word"
type_synonym size_t = nat

text \<open>Addresses of heap objects (graph nodes, type objects, hooks, host objects).\<close>

type_synonym addr = nat

subsection \<open>Errors\<close>

text \<open>
  Every \<open>throw\<close>, \<open>AT_CHECK\<close> and \<open>AT_ASSERT\<close> of the source is a value of this type:
  \<open>AtError\<close> is the \<open>at::Error\<close> raised by \<open>AT_CHECK\<close> and \<open>AT_ASSERT\<close>, the other two
  are \<open>std::logic_error\<close> and \<open>std::runtime_error\<close>, each with its message.
\<close>

datatype error = AtError string | LogicError string | RuntimeError string

subsection \<open>Edge, InputMetadata, Variable\<close>

text \<open>
  Modelled from the spec: the header \<open>edge.h\<close> is not among the sources. An Edge is a
  pair (target node, input slot index); it is invalid (a placeholder) when constructed
  empty, that is when it holds no node.
\<close>

record Edge =
  edge_function :: "addr option"
  edge_input_nr :: uint32_t

definition Edge_empty :: Edge where
  "Edge_empty = \<lparr>edge_function = None, edge_input_nr = 0\<rparr>"

definition Edge_new :: "addr \<Rightarrow> uint32_t \<Rightarrow> Edge" where
  "Edge_new function input_nr = \<lparr>edge_function = Some function, edge_input_nr = input_nr\<rparr>"

definition is_valid :: "Edge \<Rightarrow> bool" where
  "is_valid e = (edge_function e \<noteq> None)"

text \<open>
  Modelled from the spec: the header \<open>input_metadata.h\<close> is not among the sources. An
  InputMetadata is a per-input type/shape/device descriptor; the default-constructed one is
  the placeholder of an unused input.
\<close>

record InputMetadata =
  m_type :: "addr option"
  m_shape :: "int64_t list"
  m_device :: int64_t

definition InputMetadata_empty :: InputMetadata where
  "InputMetadata_empty = \<lparr>m_type = None, m_shape = [], m_device = - 1\<rparr>"

definition InputMetadata_new :: "addr \<Rightarrow> int64_t list \<Rightarrow> int64_t \<Rightarrow> InputMetadata" where
  "InputMetadata_new type shape device = \<lparr>m_type = Some type, m_shape = shape, m_device = device\<rparr>"

text \<open>
  Modelled from the spec: the header \<open>variable.h\<close> is not among the sources. A value
  exposes whether it is defined, whether it requires gradient tracking, its descriptor
  (type, shape, device), and a gradient edge that can be set and read.
\<close>

record Variable =
  var_defined :: bool
  var_requires_grad :: bool
  var_type :: addr
  var_sizes :: "int64_t list"
  var_device :: int64_t
  var_gradient_edge :: Edge

definition defined :: "Variable \<Rightarrow> bool" where
  "defined v = var_defined v"

definition requires_grad :: "Variable \<Rightarrow> bool" where
  "requires_grad v = var_requires_grad v"

definition gradient_edge :: "Variable \<Rightarrow> Edge" where
  "gradient_edge v = var_gradient_edge v"

definition set_gradient_edge :: "Edge \<Rightarrow> Variable \<Rightarrow> Variable" where
  "set_gradient_edge e v = v\<lparr>var_gradient_edge := e\<rparr>"

definition InputMetadata_of_tensor :: "Variable \<Rightarrow> InputMetadata" where
  "InputMetadata_of_tensor t = InputMetadata_new (var_type t) (var_sizes t) (var_device t)"

subsection \<open>Function\<close>

text \<open>
  A member \<open>x_\<close> of the source is the field \<open>m_x\<close> here. The anomaly metadata of a
  node keeps only whether a stack trace was stored in it (the trace itself comes from the
  host language); hooks and the host object are addresses.
\<close>

record AnomalyMetadata =
  stack_stored :: bool

record Function =
  m_sequence_nr :: uint64_t
  m_next_edges :: "Edge list"
  m_pyobj :: "addr option"
  m_anomaly_metadata :: "AnomalyMetadata option"
  m_pre_hooks :: "addr list"
  m_post_hooks :: "addr list"
  m_input_metadata :: "InputMetadata list"

text \<open>
  \<open>Function(sequence_nr, next_edges)\<close>; the first argument is
  \<open>AnomalyMode::is_enabled()\<close>, under which the constructor stores a stack trace.
\<close>

definition Function_new :: "bool \<Rightarrow> uint64_t \<Rightarrow> Edge list \<Rightarrow> Function" where
  "Function_new anomaly_enabled sequence_nr next_edges =
     \<lparr>m_sequence_nr = sequence_nr,
      m_next_edges = next_edges,
      m_pyobj = None,
      m_anomaly_metadata = (if anomaly_enabled then Some \<lparr>stack_stored = True\<rparr> else None),
      m_pre_hooks = [],
      m_post_hooks = [],
      m_input_metadata = []\<rparr>"

text \<open>
  \<open>Function(next_edges)\<close>: takes the thread's sequence counter and returns the node
  together with the incremented counter (\<open>get_next_sequence_nr()++\<close>).
\<close>

definition Function_new_auto :: "bool \<Rightarrow> uint64_t \<Rightarrow> Edge list \<Rightarrow> Function \<times> uint64_t" where
  "Function_new_auto anomaly_enabled next_sequence_nr next_edges =
     (Function_new anomaly_enabled next_sequence_nr next_edges, next_sequence_nr + 1)"

text \<open>The three overloads of \<open>add_input_metadata\<close>; each returns the index and the node.\<close>

definition add_input_metadata :: "addr \<Rightarrow> int64_t list \<Rightarrow> int64_t \<Rightarrow> Function \<Rightarrow> uint32_t \<times> Function" where
  "add_input_metadata type shape device f =
     (let input_nr = word_of_nat (length (m_input_metadata f)) in
      (input_nr, f\<lparr>m_input_metadata := m_input_metadata f @ [InputMetadata_new type shape device]\<rparr>))"

definition add_input_metadata_tensor :: "Variable \<Rightarrow> Function \<Rightarrow> uint32_t \<times> Function" where
  "add_input_metadata_tensor t f =
     (let input_nr = word_of_nat (length (m_input_metadata f)) in
      (input_nr, f\<lparr>m_input_metadata := m_input_metadata f @ [InputMetadata_of_tensor t]\<rparr>))"

definition add_input_metadata_undefined :: "Function \<Rightarrow> uint32_t \<times> Function" where
  "add_input_metadata_undefined f =
     (let input_nr = word_of_nat (length (m_input_metadata f)) in
      (input_nr, f\<lparr>m_input_metadata := m_input_metadata f @ [InputMetadata_empty]\<rparr>))"

definition num_inputs :: "Function \<Rightarrow> uint32_t" where
  "num_inputs f = word_of_nat (length (m_input_metadata f))"

text \<open>
  \<open>input_metadata(index)\<close> indexes the vector without a check of its own; out of range
  the result is \<open>None\<close> (the access is outside the vector).
\<close>

definition input_metadata :: "Function \<Rightarrow> size_t \<Rightarrow> InputMetadata option" where
  "input_metadata f index =
     (if index < length (m_input_metadata f) then Some (m_input_metadata f ! index) else None)"

definition clear_input_metadata :: "Function \<Rightarrow> Function" where
  "clear_input_metadata f = f\<lparr>m_input_metadata := []\<rparr>"

text \<open>
  \<open>next_edge\<close> and \<open>set_next_edge\<close> index the vector without a check; out of range the
  result is \<open>None\<close>.
\<close>

definition next_edge :: "Function \<Rightarrow> size_t \<Rightarrow> Edge option" where
  "next_edge f index =
     (if index < length (m_next_edges f) then Some (m_next_edges f ! index) else None)"

definition set_next_edge :: "size_t \<Rightarrow> Edge \<Rightarrow> Function \<Rightarrow> Function option" where
  "set_next_edge index edge f =
     (if index < length (m_next_edges f)
      then Some (f\<lparr>m_next_edges := (m_next_edges f)[index := edge]\<rparr>) else None)"

definition add_next_edge :: "Edge \<Rightarrow> Function \<Rightarrow> Function" where
  "add_next_edge edge f = f\<lparr>m_next_edges := m_next_edges f @ [edge]\<rparr>"

definition set_next_edges :: "Edge list \<Rightarrow> Function \<Rightarrow> Function" where
  "set_next_edges next_edges f = f\<lparr>m_next_edges := next_edges\<rparr>"

definition next_edges :: "Function \<Rightarrow> Edge list" where
  "next_edges f = m_next_edges f"

definition num_outputs :: "Function \<Rightarrow> uint32_t" where
  "num_outputs f = word_of_nat (length (m_next_edges f))"

definition sequence_nr :: "Function \<Rightarrow> uint64_t" where
  "sequence_nr f = m_sequence_nr f"

text \<open>
  \<open>should_compute_output(output_edge_index)\<close>: the \<open>AT_CHECK\<close> compares the
  \<open>size_t\<close> index with the \<open>uint32_t\<close> result of \<open>num_outputs()\<close>.
\<close>

definition should_compute_output :: "Function \<Rightarrow> size_t \<Rightarrow> error + bool" where
  "should_compute_output f output_edge_index =
     (if output_edge_index < unat (num_outputs f)
      then Inr (is_valid (m_next_edges f ! output_edge_index))
      else Inl (AtError ''Index out of range''))"

text \<open>
  The loop of the lambda in the \<open>IndexRange\<close> overload:
  \<open>for (auto i = range.first; i < range.second; i++)\<close>, where an error of the
  single-index call leaves the loop.
\<close>

function range_any :: "Function \<Rightarrow> size_t \<Rightarrow> size_t \<Rightarrow> error + bool" where
  "range_any f i second =
     (if i < second
      then (case should_compute_output f i of
              Inl e \<Rightarrow> Inl e
            | Inr b \<Rightarrow> if b then Inr True else range_any f (i + 1) second)
      else Inr False)"
  by pat_completeness auto
termination
  by (relation "measure (\<lambda>(f, i, second). second - i)") auto

declare range_any.simps [simp del]

text \<open>
  \<open>should_compute_output(idxs)\<close>: \<open>std::any_of\<close> over the ranges, in order, stopping at
  the first range whose loop returns true (or raises).
\<close>

fun should_compute_output_ranges :: "Function \<Rightarrow> (size_t \<times> size_t) list \<Rightarrow> error + bool" where
  "should_compute_output_ranges f [] = Inr False"
| "should_compute_output_ranges f (index_range # idxs) =
     (case range_any f (fst index_range) (snd index_range) of
        Inl e \<Rightarrow> Inl e
      | Inr b \<Rightarrow> if b then Inr True else should_compute_output_ranges f idxs)"

definition pyobj :: "Function \<Rightarrow> addr option" where
  "pyobj f = m_pyobj f"

definition set_pyobj :: "addr option \<Rightarrow> Function \<Rightarrow> Function" where
  "set_pyobj p f = f\<lparr>m_pyobj := p\<rparr>"

definition add_post_hook :: "addr \<Rightarrow> Function \<Rightarrow> Function" where
  "add_post_hook post_hook f = f\<lparr>m_post_hooks := m_post_hooks f @ [post_hook]\<rparr>"

definition add_pre_hook :: "addr \<Rightarrow> Function \<Rightarrow> Function" where
  "add_pre_hook pre_hook f = f\<lparr>m_pre_hooks := m_pre_hooks f @ [pre_hook]\<rparr>"

text \<open>The base-class customization points do nothing.\<close>

definition release_variables :: "Function \<Rightarrow> Function" where
  "release_variables f = f"

definition will_release_variables :: "Function \<Rightarrow> Function" where
  "will_release_variables f = f"


text \<open>
  \<open>metadata()\<close> is only declared in the header; its comment says that it returns the
  stored anomaly metadata and creates a new empty one if none exists.
\<close>

definition metadata :: "Function \<Rightarrow> Function" where
  "metadata f =
     (case m_anomaly_metadata f of
        None \<Rightarrow> f\<lparr>m_anomaly_metadata := Some \<lparr>stack_stored = False\<rparr>\<rparr>
      | Some m \<Rightarrow> f)"

subsection \<open>The public interface of a node as operations\<close>

text \<open>The argument of one call of \<open>add_input_metadata\<close>, in any of its three flavors.\<close>

datatype input_arg =
    Descriptor addr "int64_t list" int64_t
  | Tensor Variable
  | Undefined_input

fun add_input_metadata_any :: "input_arg \<Rightarrow> Function \<Rightarrow> uint32_t \<times> Function" where
  "add_input_metadata_any (Descriptor type shape device) f = add_input_metadata type shape device f"
| "add_input_metadata_any (Tensor t) f = add_input_metadata_tensor t f"
| "add_input_metadata_any Undefined_input f = add_input_metadata_undefined f"

text \<open>The descriptor that a call of \<open>add_input_metadata\<close> supplies.\<close>

fun descriptor_of :: "input_arg \<Rightarrow> InputMetadata" where
  "descriptor_of (Descriptor type shape device) = InputMetadata_new type shape device"
| "descriptor_of (Tensor t) = InputMetadata_of_tensor t"
| "descriptor_of Undefined_input = InputMetadata_empty"

text \<open>A sequence of calls of \<open>add_input_metadata\<close> on one node, with the indices returned.\<close>

fun add_input_metadata_calls :: "input_arg list \<Rightarrow> Function \<Rightarrow> uint32_t list \<times> Function" where
  "add_input_metadata_calls [] f = ([], f)"
| "add_input_metadata_calls (a # as) f =
     (case add_input_metadata_any a f of
        (input_nr, f') \<Rightarrow>
          (case add_input_metadata_calls as f' of
             (input_nrs, f'') \<Rightarrow> (input_nr # input_nrs, f'')))"

text \<open>
  The mutating members of the public interface. \<open>SetNextEdges\<close> also stands for a write
  through the reference that the non-const \<open>next_edges()\<close> returns, \<open>SetPreHooks\<close> and
  \<open>SetPostHooks\<close> for writes through \<open>pre_hooks()\<close> and \<open>post_hooks()\<close>. The call
  operator runs the subclass's \<open>apply\<close>, which the base class leaves abstract, and is not
  an operation here. A step is \<open>None\<close> where the source indexes a vector out of range.
\<close>

datatype node_op =
    AddInputMetadata input_arg
  | ClearInputMetadata
  | SetNextEdge size_t Edge
  | AddNextEdge Edge
  | SetNextEdges "Edge list"
  | SetPyobj "addr option"
  | Metadata
  | AddPostHook addr
  | SetPostHooks "addr list"
  | AddPreHook addr
  | SetPreHooks "addr list"
  | ReleaseVariables
  | WillReleaseVariables

fun node_step :: "node_op \<Rightarrow> Function \<Rightarrow> Function option" where
  "node_step (AddInputMetadata a) f = Some (snd (add_input_metadata_any a f))"
| "node_step ClearInputMetadata f = Some (clear_input_metadata f)"
| "node_step (SetNextEdge index edge) f = set_next_edge index edge f"
| "node_step (AddNextEdge edge) f = Some (add_next_edge edge f)"
| "node_step (SetNextEdges es) f = Some (set_next_edges es f)"
| "node_step (SetPyobj p) f = Some (set_pyobj p f)"
| "node_step Metadata f = Some (metadata f)"
| "node_step (AddPostHook h) f = Some (add_post_hook h f)"
| "node_step (SetPostHooks hs) f = Some (f\<lparr>m_post_hooks := hs\<rparr>)"
| "node_step (AddPreHook h) f = Some (add_pre_hook h f)"
| "node_step (SetPreHooks hs) f = Some (f\<lparr>m_pre_hooks := hs\<rparr>)"
| "node_step ReleaseVariables f = Some (release_variables f)"
| "node_step WillReleaseVariables f = Some (will_release_variables f)"

fun node_steps :: "node_op list \<Rightarrow> Function \<Rightarrow> Function option" where
  "node_steps [] f = Some f"
| "node_steps (op # ops) f =
     (case node_step op f of None \<Rightarrow> None | Some f' \<Rightarrow> node_steps ops f')"

text \<open>The indices that a list of half-open ranges covers, in the order of the scan.\<close>

definition range_indices :: "(size_t \<times> size_t) list \<Rightarrow> size_t list" where
  "range_indices idxs = concat (map (\<lambda>r. [fst r ..< snd r]) idxs)"

text \<open>
  A scan of a list of indices with the single-index predicate: the first index that is
  out of range or active decides the result.
\<close>

fun first_hit :: "Function \<Rightarrow> size_t list \<Rightarrow> error + bool" where
  "first_hit f [] = Inr False"
| "first_hit f (i # is) =
     (case should_compute_output f i of
        Inl e \<Rightarrow> Inl e
      | Inr b \<Rightarrow> if b then Inr True else first_hit f is)"

subsection \<open>Free functions\<close>

text \<open>
  \<open>create_gradient_edge(variable, function)\<close>: \<open>function\<close> is a shared pointer, so the
  nodes live in a store from addresses to nodes, and the node is updated there. A pointer
  that holds no node (a null pointer) cannot be dereferenced: the result is \<open>None\<close>.
\<close>

definition create_gradient_edge ::
  "Variable \<Rightarrow> addr \<Rightarrow> (addr \<rightharpoonup> Function) \<Rightarrow> (Variable \<times> (addr \<rightharpoonup> Function)) option" where
  "create_gradient_edge variable function store =
     (case store function of
        None \<Rightarrow> None
      | Some f \<Rightarrow>
          (case add_input_metadata_tensor variable f of
             (input_nr, f') \<Rightarrow>
               Some (set_gradient_edge (Edge_new function input_nr) variable,
                     store(function \<mapsto> f'))))"

definition any_variable_requires_grad :: "Variable list \<Rightarrow> bool" where
  "any_variable_requires_grad variables =
     list_ex (\<lambda>variable. defined variable \<and> requires_grad variable) variables"

text \<open>
  Modelled from the spec: the header \<open>variadic.h\<close> with \<open>IterArgs\<close> is not among the
  sources. An argument is an individual value or a group of values; \<open>apply\<close> visits the
  values in encounter order, groups flattened, calling the visitor on each.
\<close>

datatype iter_arg = Single Variable | Group "Variable list"

fun flatten_arg :: "iter_arg \<Rightarrow> Variable list" where
  "flatten_arg (Single v) = [v]"
| "flatten_arg (Group vs) = vs"

definition flatten_args :: "iter_arg list \<Rightarrow> Variable list" where
  "flatten_args args = concat (map flatten_arg args)"

text \<open>
  \<open>detail::MakeNextFunctionList\<close>. The field \<open>visited\<close> is instrumentation, not data of
  the source: it counts the calls of \<open>operator()(const Variable&)\<close>, the sentinel that
  records that a value was examined.
\<close>

record MakeNextFunctionList =
  make_next_edges :: "Edge list"
  visited :: nat

definition MakeNextFunctionList_call :: "Variable \<Rightarrow> MakeNextFunctionList \<Rightarrow> MakeNextFunctionList" where
  "MakeNextFunctionList_call variable mk =
     (if defined variable
      then mk\<lparr>make_next_edges := make_next_edges mk @ [gradient_edge variable],
                visited := visited mk + 1\<rparr>
      else mk\<lparr>make_next_edges := make_next_edges mk @ [Edge_empty],
                visited := visited mk + 1\<rparr>)"

fun MakeNextFunctionList_apply_arg :: "iter_arg \<Rightarrow> MakeNextFunctionList \<Rightarrow> MakeNextFunctionList" where
  "MakeNextFunctionList_apply_arg (Single v) mk = MakeNextFunctionList_call v mk"
| "MakeNextFunctionList_apply_arg (Group vs) mk = fold MakeNextFunctionList_call vs mk"

definition MakeNextFunctionList_apply :: "iter_arg list \<Rightarrow> MakeNextFunctionList \<Rightarrow> MakeNextFunctionList" where
  "MakeNextFunctionList_apply args mk = fold MakeNextFunctionList_apply_arg args mk"

text \<open>
  \<open>collect_next_edges(variables...)\<close>; the first argument is \<open>GradMode::is_enabled()\<close>.
  The result is the edge list together with the number of values visited.
\<close>

definition collect_next_edges :: "bool \<Rightarrow> iter_arg list \<Rightarrow> Edge list \<times> nat" where
  "collect_next_edges grad_mode_enabled variables =
     (if \<not> grad_mode_enabled then ([], 0)
      else (let mk = MakeNextFunctionList_apply variables \<lparr>make_next_edges = [], visited = 0\<rparr>
            in (make_next_edges mk, visited mk)))"


subsection \<open>Profiler\<close>

text \<open>
  Modelled from the spec: the header \<open>profiler.h\<close>, with the enumerations, the event
  type and \<open>RangeEventList\<close>, is not among the sources. The profiler state is one of
  Disabled, sampling on the CPU, sampling on the GPU, and external timeline markers; the
  source names them \<open>Disabled\<close>, \<open>CPU\<close>, \<open>CUDA\<close> and \<open>NVTX\<close>. An event has a kind, a
  name, a thread id and a flag for the device timer (its timestamp is real time and is left
  out). An event list is an append-only sequence of events; \<open>record\<close> appends one event
  and \<open>consolidate\<close> drains the list.
\<close>

datatype ProfilerState = Disabled | CPU | CUDA | NVTX

datatype EventKind = Mark | PushRange | PopRange

record Event =
  ev_kind :: EventKind
  ev_name :: string
  ev_thread_id :: uint32_t
  ev_cuda :: bool

text \<open>
  An event list is held through shared pointers: \<open>use_count\<close> is the number of
  holders (the thread-local pointer of its thread, and the registry).
\<close>

record RangeEventList =
  events :: "Event list"
  use_count :: nat

text \<open>The calls into the external marker library, in the order they are made.\<close>

datatype nvtx_call = NvtxMarkA string | NvtxRangePushA string | NvtxRangePop

text \<open>
  The build and the device runtime: whether \<open>USE_CUDA\<close> is defined, and what
  \<open>cudaGetDeviceCount\<close> answers: the number of devices, or an error string, on which
  \<open>TORCH_CUDA_CHECK\<close> raises a runtime error.
\<close>

record build =
  USE_CUDA :: bool
  cudaGetDeviceCount :: "string + nat"

type_synonym thread = nat

text \<open>
  The globals of profiler.cpp. The thread-local variables \<open>event_list\<close> and \<open>thread_id\<close>
  are functions of the thread; \<open>thread_id\<close> is an \<open>int32_t\<close> in the source and holds
  the 32 bits of the counter it is assigned from. Event lists live in a store from
  addresses to lists; \<open>heap_top\<close> is the next free address, and \<open>nvtx\<close> is the log of
  calls into the external marker library. Each call below is one atomic step on this state
  (the mutex is not modelled).
\<close>

record profiler =
  state :: ProfilerState
  next_thread_id :: uint32_t
  all_event_lists :: "addr list"
  event_list :: "thread \<Rightarrow> addr option"
  thread_id :: "thread \<Rightarrow> uint32_t"
  heap :: "addr \<Rightarrow> RangeEventList"
  heap_top :: addr
  nvtx :: "nvtx_call list"

definition profiler_init :: profiler where
  "profiler_init =
     \<lparr>state = Disabled,
      next_thread_id = 0,
      all_event_lists = [],
      event_list = (\<lambda>t. None),
      thread_id = (\<lambda>t. 0),
      heap = (\<lambda>p. \<lparr>events = [], use_count = 0\<rparr>),
      heap_top = 0,
      nvtx = []\<rparr>"

text \<open>
  \<open>getEventList()\<close> called on thread \<open>t\<close>: returns the address of the thread's list. On
  first use it makes the list (held by the thread and, after \<open>emplace_front\<close>, by the
  registry), takes the next thread id and registers the list at the front.
\<close>

definition getEventList :: "thread \<Rightarrow> profiler \<Rightarrow> addr \<times> profiler" where
  "getEventList t s =
     (case event_list s t of
        None \<Rightarrow>
          (let p = heap_top s in
           (p, s\<lparr>heap := (heap s)(p := \<lparr>events = [], use_count = 2\<rparr>),
                  heap_top := p + 1,
                  event_list := (event_list s)(t := Some p),
                  thread_id := (thread_id s)(t := next_thread_id s),
                  next_thread_id := next_thread_id s + 1,
                  all_event_lists := p # all_event_lists s\<rparr>))
      | Some p \<Rightarrow> (p, s))"

text \<open>\<open>RangeEventList::record\<close> on the list at address \<open>p\<close>.\<close>

definition record_event :: "addr \<Rightarrow> EventKind \<Rightarrow> string \<Rightarrow> uint32_t \<Rightarrow> bool \<Rightarrow> profiler \<Rightarrow> profiler" where
  "record_event p k n tid record_cuda s =
     s\<lparr>heap := (heap s)(p := (heap s p)\<lparr>events := events (heap s p) @
          [\<lparr>ev_kind = k, ev_name = n, ev_thread_id = tid, ev_cuda = record_cuda\<rparr>]\<rparr>)\<rparr>"

text \<open>
  \<open>mark\<close>, \<open>pushRange\<close> and \<open>popRange\<close> called on thread \<open>t\<close>. A call returns
  its outcome, \<open>None\<close> for a normal return and \<open>Some e\<close> for an exception, together
  with the globals as they are at that moment. The call \<open>getEventList()\<close> is evaluated
  before the argument \<open>thread_id\<close> is read.
\<close>

definition mark :: "build \<Rightarrow> thread \<Rightarrow> string \<Rightarrow> bool \<Rightarrow> profiler \<Rightarrow> error option \<times> profiler" where
  "mark cfg t name include_cuda s =
     (if state s = NVTX then
        (if USE_CUDA cfg then (None, s\<lparr>nvtx := nvtx s @ [NvtxMarkA name]\<rparr>)
         else (Some (LogicError ''mark called with NVTX tracing, but compiled without CUDA''), s))
      else
        (case getEventList t s of
           (p, s1) \<Rightarrow>
             (None, record_event p Mark name (thread_id s1 t) (include_cuda \<and> state s1 = CUDA) s1)))"

definition pushRange :: "build \<Rightarrow> thread \<Rightarrow> string \<Rightarrow> profiler \<Rightarrow> error option \<times> profiler" where
  "pushRange cfg t name s =
     (if state s = Disabled then (None, s)
      else if state s = NVTX then
        (if USE_CUDA cfg then (None, s\<lparr>nvtx := nvtx s @ [NvtxRangePushA name]\<rparr>)
         else (Some (LogicError ''pushRange called with NVTX tracing, but compiled without CUDA''), s))
      else
        (case getEventList t s of
           (p, s1) \<Rightarrow>
             (None, record_event p PushRange name (thread_id s1 t) (state s1 = CUDA) s1)))"

definition popRange :: "build \<Rightarrow> thread \<Rightarrow> profiler \<Rightarrow> error option \<times> profiler" where
  "popRange cfg t s =
     (if state s = Disabled then (None, s)
      else if state s = NVTX then
        (if USE_CUDA cfg then (None, s\<lparr>nvtx := nvtx s @ [NvtxRangePop]\<rparr>)
         else (Some (LogicError ''popRange called with NVTX tracing, but compiled without CUDA''), s))
      else
        (case getEventList t s of
           (p, s1) \<Rightarrow>
             (None, record_event p PopRange [] (thread_id s1 t) (state s1 = CUDA) s1)))"

text \<open>
  The loop \<open>for (int i = 0; i < count; i++) op(i)\<close> over a list of indices, which an
  exception leaves.
\<close>

fun for_each ::
  "nat list \<Rightarrow> (nat \<Rightarrow> profiler \<Rightarrow> error option \<times> profiler) \<Rightarrow> profiler \<Rightarrow> error option \<times> profiler" where
  "for_each [] op s = (None, s)"
| "for_each (i # is) op s =
     (case op i s of
        (Some e, s1) \<Rightarrow> (Some e, s1)
      | (None, s1) \<Rightarrow> for_each is op s1)"

text \<open>
  \<open>onEachDevice(op)\<close>: \<open>TORCH_CUDA_CHECK(cudaGetDeviceCount(&count))\<close> raises when
  the query fails, before any call of \<open>op\<close>; otherwise \<open>op\<close> runs on each device index.
  The device guard only switches the current device, which is not part of the globals
  here, and is taken to succeed on the indices below \<open>count\<close>.
\<close>

definition onEachDevice ::
  "build \<Rightarrow> (nat \<Rightarrow> profiler \<Rightarrow> error option \<times> profiler) \<Rightarrow> profiler \<Rightarrow> error option \<times> profiler" where
  "onEachDevice cfg op s =
     (case cudaGetDeviceCount cfg of
        Inl msg \<Rightarrow> (Some (RuntimeError msg), s)
      | Inr count \<Rightarrow> for_each [0 ..< count] op s)"

text \<open>The block of \<open>enableProfiler\<close> under \<open>#ifdef USE_CUDA\<close>.\<close>

definition cuda_startup :: "build \<Rightarrow> thread \<Rightarrow> profiler \<Rightarrow> error option \<times> profiler" where
  "cuda_startup cfg t s =
     (if USE_CUDA cfg \<and> state s = CUDA then
        (case for_each [0 ..< 5]
                (\<lambda>i. onEachDevice cfg (\<lambda>d. mark cfg t ''__cuda_startup'' True)) s of
           (Some e, s1) \<Rightarrow> (Some e, s1)
         | (None, s1) \<Rightarrow> onEachDevice cfg (\<lambda>d. mark cfg t ''__cuda_start_event'' True) s1)
      else (None, s))"

text \<open>
  \<open>enableProfiler(new_state)\<close> called on thread \<open>t\<close>. The message of the failed
  \<open>AT_ASSERT\<close> is its condition.
\<close>

definition enableProfiler :: "build \<Rightarrow> thread \<Rightarrow> ProfilerState \<Rightarrow> profiler \<Rightarrow> error option \<times> profiler" where
  "enableProfiler cfg t new_state s =
     (if new_state = Disabled then (Some (AtError ''new_state != ProfilerState::Disabled''), s)
      else if \<not> USE_CUDA cfg \<and> new_state = NVTX then
        (Some (RuntimeError ''Can't use NVTX profiler - PyTorch was compiled without CUDA''), s)
      else if state s \<noteq> Disabled \<and> new_state \<noteq> state s then
        (Some (RuntimeError
           ''can't change kind of profiling (e.g. NVTX to CPU) while profiler is running''), s)
      else
        (case cuda_startup cfg t (s\<lparr>state := new_state\<rparr>) of
           (Some e, s1) \<Rightarrow> (Some e, s1)
         | (None, s1) \<Rightarrow> mark cfg t ''__start_profile'' False s1))"

text \<open>
  The loop of \<open>disableProfiler\<close> over the registry: each list is consolidated (drained)
  into the result, and a list that only the registry holds is erased from the registry,
  which drops its last holder. Returns the result, the registry and the store.
\<close>

fun consolidate_all ::
  "addr list \<Rightarrow> (addr \<Rightarrow> RangeEventList) \<Rightarrow> Event list list \<times> addr list \<times> (addr \<Rightarrow> RangeEventList)" where
  "consolidate_all [] h = ([], [], h)"
| "consolidate_all (p # ps) h =
     (let l = h p;
          erase = (use_count l = 1);
          h1 = h(p := \<lparr>events = [], use_count = (if erase then 0 else use_count l)\<rparr>)
      in (case consolidate_all ps h1 of
            (result, kept, h2) \<Rightarrow> (events l # result, (if erase then kept else p # kept), h2)))"

text \<open>
  \<open>disableProfiler()\<close> called on thread \<open>t\<close>: the outcome is an exception or the
  report, one event sequence for each registered list.
\<close>

definition disableProfiler ::
  "build \<Rightarrow> thread \<Rightarrow> profiler \<Rightarrow> (error + Event list list) \<times> profiler" where
  "disableProfiler cfg t s =
     (if state s = Disabled then
        (Inl (RuntimeError ''can't disable profiler when it's not running''), s)
      else
        (let old_state = state s in
         (case mark cfg t ''__stop_profile'' True s of
            (Some e, s1) \<Rightarrow> (Inl e, s1)
          | (None, s1) \<Rightarrow>
              (let s2 = s1\<lparr>state := Disabled\<rparr> in
               if old_state = NVTX then (Inr [], s2)
               else (case consolidate_all (all_event_lists s2) (heap s2) of
                       (result, kept, h) \<Rightarrow>
                         (Inr result, s2\<lparr>all_event_lists := kept, heap := h\<rparr>))))))"

text \<open>
  The end of thread \<open>t\<close>, a step of the environment: the thread-local pointer is
  destroyed, and the thread's list loses one holder.
\<close>

definition thread_exit :: "thread \<Rightarrow> profiler \<Rightarrow> profiler" where
  "thread_exit t s =
     (case event_list s t of
        None \<Rightarrow> s
      | Some p \<Rightarrow>
          s\<lparr>event_list := (event_list s)(t := None),
            heap := (heap s)(p := (heap s p)\<lparr>use_count := use_count (heap s p) - 1\<rparr>)\<rparr>)"

text \<open>
  The profiler states that calls of the functions above reach from the initial state,
  whether a call returns or raises.
\<close>

inductive reachable :: "build \<Rightarrow> profiler \<Rightarrow> bool" for cfg :: build where
  reachable_init: "reachable cfg profiler_init"
| reachable_mark: "reachable cfg s \<Longrightarrow> mark cfg t name include_cuda s = (r, s') \<Longrightarrow> reachable cfg s'"
| reachable_pushRange: "reachable cfg s \<Longrightarrow> pushRange cfg t name s = (r, s') \<Longrightarrow> reachable cfg s'"
| reachable_popRange: "reachable cfg s \<Longrightarrow> popRange cfg t s = (r, s') \<Longrightarrow> reachable cfg s'"
| reachable_enable: "reachable cfg s \<Longrightarrow> enableProfiler cfg t new_state s = (r, s') \<Longrightarrow> reachable cfg s'"
| reachable_disable: "reachable cfg s \<Longrightarrow> disableProfiler cfg t s = (report, s') \<Longrightarrow> reachable cfg s'"
| reachable_exit: "reachable cfg s \<Longrightarrow> reachable cfg (thread_exit t s)"

text \<open>
  The events of the list of thread \<open>t\<close>, empty when the thread has no list yet.
\<close>

definition thread_events :: "profiler \<Rightarrow> thread \<Rightarrow> Event list" where
  "thread_events s t = (case event_list s t of None \<Rightarrow> [] | Some p \<Rightarrow> events (heap s p))"

text \<open>
  The thread id under which the next event of thread \<open>t\<close> is recorded: its thread id
  when it has a list, and otherwise the id that \<open>getEventList\<close> will give it.
\<close>

definition recording_id :: "profiler \<Rightarrow> thread \<Rightarrow> uint32_t" where
  "recording_id s t = (case event_list s t of None \<Rightarrow> next_thread_id s | Some p \<Rightarrow> thread_id s t)"

text \<open>The Mark event of thread \<open>t\<close> with the given name and device-timer flag.\<close>

definition mark_event :: "profiler \<Rightarrow> thread \<Rightarrow> string \<Rightarrow> bool \<Rightarrow> Event" where
  "mark_event s t name record_cuda =
     \<lparr>ev_kind = Mark, ev_name = name, ev_thread_id = recording_id s t, ev_cuda = record_cuda\<rparr>"


section \<open>Properties of graph nodes\<close>

subsection \<open>Edges and sizes\<close>

lemma is_valid_Edge_empty: "\<not> is_valid Edge_empty"
  by (simp add: is_valid_def Edge_empty_def)

lemma is_valid_Edge_new: "is_valid (Edge_new function input_nr)"
  by (simp add: is_valid_def Edge_new_def)

lemma unat_num_outputs_le: "unat (num_outputs f) \<le> length (m_next_edges f)"
  by (simp add: num_outputs_def unat_of_nat)

lemma unat_num_inputs_small:
  "length (m_input_metadata f) < 2 ^ 32 \<Longrightarrow> unat (num_inputs f) = length (m_input_metadata f)"
  by (simp add: num_inputs_def unat_of_nat)

subsection \<open>The single-index predicate\<close>

text \<open>
  C3. For every node and every index \<open>i\<close>, \<open>should_compute_output(i)\<close> fails with the
  out-of-range error when \<open>i \<ge> num_outputs()\<close>; when \<open>i < num_outputs()\<close> the index is
  inside the edge list and the call returns true if and only if the edge stored at index
  \<open>i\<close> is valid.
\<close>

theorem should_compute_output_spec:
  "(unat (num_outputs f) \<le> i \<longrightarrow>
      should_compute_output f i = Inl (AtError ''Index out of range'')) \<and>
   (i < unat (num_outputs f) \<longrightarrow>
      (\<exists>e. next_edge f i = Some e \<and> should_compute_output f i = Inr (is_valid e)))"
proof (intro conjI impI)
  assume "unat (num_outputs f) \<le> i"
  then show "should_compute_output f i = Inl (AtError ''Index out of range'')"
    by (simp add: should_compute_output_def)
next
  assume lt: "i < unat (num_outputs f)"
  with unat_num_outputs_le [of f] have "i < length (m_next_edges f)"
    by simp
  with lt show "\<exists>e. next_edge f i = Some e \<and> should_compute_output f i = Inr (is_valid e)"
    by (simp add: should_compute_output_def next_edge_def)
qed

theorem should_compute_output_spec_witness:
  "(unat (num_outputs (Function_new False 0 [Edge_new 7 0, Edge_empty])) \<le> 2 \<and>
    should_compute_output (Function_new False 0 [Edge_new 7 0, Edge_empty]) 2
      = Inl (AtError ''Index out of range'')) \<and>
   (0 < unat (num_outputs (Function_new False 0 [Edge_new 7 0, Edge_empty])) \<and>
    should_compute_output (Function_new False 0 [Edge_new 7 0, Edge_empty]) 0 = Inr True) \<and>
   (1 < unat (num_outputs (Function_new False 0 [Edge_new 7 0, Edge_empty])) \<and>
    should_compute_output (Function_new False 0 [Edge_new 7 0, Edge_empty]) 1 = Inr False)"
  using should_compute_output_spec [of "Function_new False 0 [Edge_new 7 0, Edge_empty]" 2]
    should_compute_output_spec [of "Function_new False 0 [Edge_new 7 0, Edge_empty]" 0]
    should_compute_output_spec [of "Function_new False 0 [Edge_new 7 0, Edge_empty]" 1]
  by (simp add: Function_new_def num_outputs_def next_edge_def is_valid_def
      Edge_new_def Edge_empty_def)


subsection \<open>The predicate on ranges\<close>

lemma range_any_first_hit: "range_any f a b = first_hit f [a ..< b]"
proof (induction f a b rule: range_any.induct)
  case (1 f i second)
  note unfold = range_any.simps [of f i second]
  show ?case
  proof (cases "i < second")
    case True
    then have upt: "[i ..< second] = i # [i + 1 ..< second]"
      by (simp add: upt_conv_Cons)
    show ?thesis
    proof (cases "should_compute_output f i")
      case (Inl e)
      with True have "range_any f i second = Inl e"
        by (simp only: unfold if_True sum.case)
      moreover from Inl have "first_hit f (i # [i + 1 ..< second]) = Inl e"
        by (simp only: first_hit.simps sum.case)
      ultimately show ?thesis
        by (simp only: upt)
    next
      case (Inr c)
      show ?thesis
      proof (cases c)
        case True
        with \<open>i < second\<close> Inr have "range_any f i second = Inr True"
          by (simp only: unfold if_True sum.case)
        moreover from Inr True have "first_hit f (i # [i + 1 ..< second]) = Inr True"
          by (simp only: first_hit.simps sum.case if_True)
        ultimately show ?thesis
          by (simp only: upt)
      next
        case False
        with \<open>i < second\<close> Inr have "range_any f i second = range_any f (i + 1) second"
          by (simp only: unfold if_True if_False sum.case)
        moreover from Inr False
        have "first_hit f (i # [i + 1 ..< second]) = first_hit f [i + 1 ..< second]"
          by (simp only: first_hit.simps sum.case if_False)
        moreover from "1.IH" [OF \<open>i < second\<close> Inr False]
        have "range_any f (i + 1) second = first_hit f [i + 1 ..< second]" .
        ultimately show ?thesis
          by (simp only: upt)
      qed
    qed
  next
    case False
    then have "range_any f i second = Inr False"
      by (simp only: unfold if_False)
    moreover from False have "[i ..< second] = []"
      by simp
    ultimately show ?thesis
      by (simp only: first_hit.simps)
  qed
qed

lemma first_hit_append:
  "first_hit f (xs @ ys) =
     (case first_hit f xs of Inl e \<Rightarrow> Inl e | Inr b \<Rightarrow> if b then Inr True else first_hit f ys)"
  by (induction xs) (simp_all split: sum.splits)

lemma range_indices_Cons:
  "range_indices (r # idxs) = [fst r ..< snd r] @ range_indices idxs"
  by (simp add: range_indices_def)

lemma ranges_first_hit:
  "should_compute_output_ranges f idxs = first_hit f (range_indices idxs)"
proof (induction idxs)
  case Nil
  show ?case
    by (simp add: range_indices_def)
next
  case (Cons r idxs)
  then show ?case
    by (simp only: should_compute_output_ranges.simps range_indices_Cons
        range_any_first_hit first_hit_append)
qed

lemma first_hit_True:
  "first_hit f xs = Inr True \<Longrightarrow> \<exists>i\<in>set xs. should_compute_output f i = Inr True"
  by (induction xs) (auto split: sum.splits if_splits)

lemma first_hit_False:
  "first_hit f xs = Inr False \<Longrightarrow> \<forall>i\<in>set xs. should_compute_output f i = Inr False"
  by (induction xs) (auto split: sum.splits if_splits)

lemma first_hit_error:
  "first_hit f xs = Inl e \<Longrightarrow> \<exists>i\<in>set xs. should_compute_output f i = Inl e"
  by (induction xs) (auto split: sum.splits if_splits)

lemma first_hit_in_range:
  "\<forall>i\<in>set xs. i < unat (num_outputs f) \<Longrightarrow>
   first_hit f xs = Inr (\<exists>i\<in>set xs. should_compute_output f i = Inr True)"
  by (induction xs) (auto simp: should_compute_output_def split: sum.splits)

lemma first_hit_all_False:
  "\<forall>j\<in>set xs. should_compute_output f j = Inr False \<Longrightarrow> first_hit f xs = Inr False"
  by (induction xs) simp_all

lemma first_hit_split:
  "\<forall>j\<in>set pre. should_compute_output f j = Inr False \<Longrightarrow>
   first_hit f (pre @ i # post) =
     (case should_compute_output f i of
        Inl e \<Rightarrow> Inl e
      | Inr b \<Rightarrow> if b then Inr True else first_hit f post)"
  by (simp add: first_hit_append first_hit_all_False)

text \<open>
  C4, as the code has it. For every node and every list of half-open ranges, the bulk
  overload scans the indices of the ranges in order (the ranges as listed, each range
  ascending), and the first index that is active or out of range decides: if the
  single-index predicate is true there, it returns true; if the single-index predicate
  fails there with the out-of-range error, the bulk call fails with that error; and if
  every index is in range and inactive, it returns false. So when every index inside the
  ranges is below \<open>num_outputs()\<close>, it returns true if and only if the single-index
  predicate is true at some index inside some range (and it returns false for an empty
  list and when every range is empty). Conversely, if it returns true then some index
  inside the ranges is active, if it returns false then every index inside the ranges is
  in range and inactive, and if it fails then the single-index predicate fails with that
  error at some index inside the ranges.
\<close>

theorem should_compute_output_ranges_spec:
  "((\<forall>i\<in>set (range_indices idxs). i < unat (num_outputs f)) \<longrightarrow>
      should_compute_output_ranges f idxs =
        Inr (\<exists>i\<in>set (range_indices idxs). should_compute_output f i = Inr True)) \<and>
   (\<forall>pre i post.
      range_indices idxs = pre @ i # post \<and>
      (\<forall>j\<in>set pre. should_compute_output f j = Inr False) \<longrightarrow>
        (should_compute_output f i = Inr True \<longrightarrow>
           should_compute_output_ranges f idxs = Inr True) \<and>
        (\<forall>e. should_compute_output f i = Inl e \<longrightarrow>
           should_compute_output_ranges f idxs = Inl e)) \<and>
   ((\<forall>i\<in>set (range_indices idxs). should_compute_output f i = Inr False) \<longrightarrow>
      should_compute_output_ranges f idxs = Inr False) \<and>
   (should_compute_output_ranges f idxs = Inr True \<longrightarrow>
      (\<exists>i\<in>set (range_indices idxs). should_compute_output f i = Inr True)) \<and>
   (should_compute_output_ranges f idxs = Inr False \<longrightarrow>
      (\<forall>i\<in>set (range_indices idxs). should_compute_output f i = Inr False)) \<and>
   (\<forall>e. should_compute_output_ranges f idxs = Inl e \<longrightarrow>
      (\<exists>i\<in>set (range_indices idxs). should_compute_output f i = Inl e))"
proof (intro conjI)
  show "(\<forall>i\<in>set (range_indices idxs). i < unat (num_outputs f)) \<longrightarrow>
      should_compute_output_ranges f idxs =
        Inr (\<exists>i\<in>set (range_indices idxs). should_compute_output f i = Inr True)"
    unfolding ranges_first_hit using first_hit_in_range [of "range_indices idxs" f] by blast
  show "\<forall>pre i post.
      range_indices idxs = pre @ i # post \<and>
      (\<forall>j\<in>set pre. should_compute_output f j = Inr False) \<longrightarrow>
        (should_compute_output f i = Inr True \<longrightarrow>
           should_compute_output_ranges f idxs = Inr True) \<and>
        (\<forall>e. should_compute_output f i = Inl e \<longrightarrow>
           should_compute_output_ranges f idxs = Inl e)"
    unfolding ranges_first_hit by (auto simp: first_hit_split)
  show "(\<forall>i\<in>set (range_indices idxs). should_compute_output f i = Inr False) \<longrightarrow>
      should_compute_output_ranges f idxs = Inr False"
    unfolding ranges_first_hit using first_hit_all_False [of "range_indices idxs" f] by blast
  show "should_compute_output_ranges f idxs = Inr True \<longrightarrow>
      (\<exists>i\<in>set (range_indices idxs). should_compute_output f i = Inr True)"
    unfolding ranges_first_hit using first_hit_True [of f "range_indices idxs"] by blast
  show "should_compute_output_ranges f idxs = Inr False \<longrightarrow>
      (\<forall>i\<in>set (range_indices idxs). should_compute_output f i = Inr False)"
    unfolding ranges_first_hit using first_hit_False [of f "range_indices idxs"] by blast
  show "\<forall>e. should_compute_output_ranges f idxs = Inl e \<longrightarrow>
      (\<exists>i\<in>set (range_indices idxs). should_compute_output f i = Inl e)"
    unfolding ranges_first_hit using first_hit_error [of f "range_indices idxs"] by blast
qed

theorem should_compute_output_ranges_spec_witness:
  "((0 < unat (num_outputs (Function_new False 0 [Edge_empty, Edge_empty, Edge_new 7 0])) \<and>
     2 < unat (num_outputs (Function_new False 0 [Edge_empty, Edge_empty, Edge_new 7 0]))) \<and>
    range_indices [(0, 2), (2, 3)] = [0, 1, 2] \<and>
    should_compute_output (Function_new False 0 [Edge_empty, Edge_empty, Edge_new 7 0]) 2 = Inr True \<and>
    should_compute_output_ranges (Function_new False 0 [Edge_empty, Edge_empty, Edge_new 7 0])
      [(0, 2), (2, 3)] = Inr True) \<and>
   (range_indices [(0, 1), (3, 4), (2, 3)] = [0] @ 3 # [2] \<and>
    should_compute_output (Function_new False 0 [Edge_empty, Edge_empty, Edge_new 7 0]) 0 = Inr False \<and>
    should_compute_output (Function_new False 0 [Edge_empty, Edge_empty, Edge_new 7 0]) 3
      = Inl (AtError ''Index out of range'') \<and>
    should_compute_output_ranges (Function_new False 0 [Edge_empty, Edge_empty, Edge_new 7 0])
      [(0, 1), (3, 4), (2, 3)] = Inl (AtError ''Index out of range''))"
proof -
  let ?F = "Function_new False 0 [Edge_empty, Edge_empty, Edge_new 7 0]"
  have n: "unat (num_outputs ?F) = 3"
    by (simp add: Function_new_def num_outputs_def)
  have ri: "range_indices [(0, 2), (2, 3)] = [0, 1, 2]"
    by code_simp
  have s2: "should_compute_output ?F 2 = Inr True"
    by (simp add: should_compute_output_def n) (simp add: Function_new_def is_valid_def Edge_new_def)
  have pre: "\<forall>i\<in>set (range_indices [(0, 2), (2, 3)]). i < unat (num_outputs ?F)"
    unfolding ri n by simp
  have ex: "\<exists>i\<in>set (range_indices [(0, 2), (2, 3)]). should_compute_output ?F i = Inr True"
    unfolding ri using s2 by simp
  from should_compute_output_ranges_spec [of "[(0, 2), (2, 3)]" ?F] pre
  have "should_compute_output_ranges ?F [(0, 2), (2, 3)] =
      Inr (\<exists>i\<in>set (range_indices [(0, 2), (2, 3)]). should_compute_output ?F i = Inr True)"
    by blast
  then have first: "should_compute_output_ranges ?F [(0, 2), (2, 3)] = Inr True"
    by (simp only: ex)
  have ri': "range_indices [(0, 1), (3, 4), (2, 3)] = [0] @ 3 # [2]"
    by code_simp
  have s0: "should_compute_output ?F 0 = Inr False"
    by (simp add: should_compute_output_def n) (simp add: Function_new_def is_valid_def Edge_empty_def)
  have s3: "should_compute_output ?F 3 = Inl (AtError ''Index out of range'')"
    by (simp add: should_compute_output_def n)
  from s0 have before: "\<forall>j\<in>set [0]. should_compute_output ?F j = Inr False"
    by simp
  from should_compute_output_ranges_spec [of "[(0, 1), (3, 4), (2, 3)]" ?F] ri' before s3
  have second: "should_compute_output_ranges ?F [(0, 1), (3, 4), (2, 3)]
      = Inl (AtError ''Index out of range'')"
    by blast
  from n ri s2 first ri' s0 s3 second show ?thesis
    by simp
qed

text \<open>
  C4 as stated fails: with a valid edge at index 0 and the ranges \<open>[2,3)\<close>, \<open>[0,2)\<close>
  on a node with two outputs, index 0 lies inside a range and is active, but the scan
  reaches index 2 first and the call fails with the out-of-range error instead of returning
  true.
\<close>

theorem should_compute_output_ranges_counterexample:
  "0 \<in> set (range_indices [(2, 3), (0, 2)]) \<and>
   should_compute_output (Function_new False 0 [Edge_new 7 0, Edge_empty]) 0 = Inr True \<and>
   should_compute_output_ranges (Function_new False 0 [Edge_new 7 0, Edge_empty]) [(2, 3), (0, 2)]
     = Inl (AtError ''Index out of range'')"
proof -
  let ?F = "Function_new False 0 [Edge_new 7 0, Edge_empty]"
  have n: "unat (num_outputs ?F) = 2"
    by (simp add: Function_new_def num_outputs_def)
  have ri: "range_indices [(2, 3), (0, 2)] = [2, 0, 1]"
    by code_simp
  have s0: "should_compute_output ?F 0 = Inr True"
    by (simp add: should_compute_output_def n) (simp add: Function_new_def is_valid_def Edge_new_def)
  have s2: "should_compute_output ?F 2 = Inl (AtError ''Index out of range'')"
    by (simp add: should_compute_output_def n)
  have "should_compute_output_ranges ?F [(2, 3), (0, 2)] = Inl (AtError ''Index out of range'')"
    by (simp only: ranges_first_hit ri first_hit.simps s2 sum.case)
  with ri s0 show ?thesis
    by simp
qed


subsection \<open>Input metadata\<close>

lemma add_input_metadata_any_eq:
  "add_input_metadata_any a f =
     (word_of_nat (length (m_input_metadata f)),
      f\<lparr>m_input_metadata := m_input_metadata f @ [descriptor_of a]\<rparr>)"
  by (cases a)
    (simp_all add: add_input_metadata_def add_input_metadata_tensor_def
      add_input_metadata_undefined_def)

lemma add_input_metadata_calls_eq:
  "add_input_metadata_calls args f =
     (map (\<lambda>k. word_of_nat (length (m_input_metadata f) + k)) [0 ..< length args],
      f\<lparr>m_input_metadata := m_input_metadata f @ map descriptor_of args\<rparr>)"
proof (induction args arbitrary: f)
  case Nil
  show ?case by simp
next
  case (Cons a args)
  show ?case
    by (simp add: add_input_metadata_any_eq Cons.IH map_upt_Suc del: upt_Suc)
qed

lemma node_step_input_metadata:
  "op \<noteq> ClearInputMetadata \<Longrightarrow> node_step op f = Some f' \<Longrightarrow>
   \<exists>ys. m_input_metadata f' = m_input_metadata f @ ys"
  by (cases op)
    (auto simp: add_input_metadata_any_eq clear_input_metadata_def set_next_edge_def
      add_next_edge_def set_next_edges_def set_pyobj_def metadata_def add_post_hook_def
      add_pre_hook_def release_variables_def will_release_variables_def
      split: if_splits option.splits)

lemma node_steps_input_metadata:
  "ClearInputMetadata \<notin> set ops \<Longrightarrow> node_steps ops f = Some f' \<Longrightarrow>
   \<exists>ys. m_input_metadata f' = m_input_metadata f @ ys"
proof (induction ops arbitrary: f)
  case Nil
  then show ?case by simp
next
  case (Cons op ops)
  from Cons.prems obtain f1 where step: "node_step op f = Some f1"
    and rest: "node_steps ops f1 = Some f'"
    by (auto split: option.splits)
  from Cons.prems have "op \<noteq> ClearInputMetadata" and "ClearInputMetadata \<notin> set ops"
    by auto
  with node_step_input_metadata [OF _ step] Cons.IH [OF _ rest]
  obtain ys zs where "m_input_metadata f1 = m_input_metadata f @ ys"
    and "m_input_metadata f' = m_input_metadata f1 @ zs"
    by blast
  then show ?case by simp
qed

text \<open>
  C2, as the code has it. For every node: over any sequence of operations of the public
  interface that does not contain \<open>clear_input_metadata\<close>, the length of the
  input-descriptor sequence never decreases, and every slot index assigned before keeps
  its descriptor: \<open>input_metadata(index)\<close> returns the same descriptor afterwards.
  \<open>clear_input_metadata\<close> empties the sequence: afterwards \<open>num_inputs()\<close> is 0 and no
  slot is assigned.
\<close>

theorem input_metadata_stable:
  "(ClearInputMetadata \<notin> set ops \<and> node_steps ops f = Some f' \<longrightarrow>
      length (m_input_metadata f) \<le> length (m_input_metadata f') \<and>
      (\<forall>index < length (m_input_metadata f). input_metadata f' index = input_metadata f index)) \<and>
   num_inputs (clear_input_metadata f) = 0 \<and>
   input_metadata (clear_input_metadata f) index = None"
proof (intro conjI impI)
  assume "ClearInputMetadata \<notin> set ops \<and> node_steps ops f = Some f'"
  with node_steps_input_metadata [of ops f f']
  obtain ys where ys: "m_input_metadata f' = m_input_metadata f @ ys"
    by blast
  then show "length (m_input_metadata f) \<le> length (m_input_metadata f')"
    by simp
  from ys show "\<forall>index < length (m_input_metadata f). input_metadata f' index = input_metadata f index"
    by (simp add: input_metadata_def nth_append)
next
  show "num_inputs (clear_input_metadata f) = 0"
    by (simp add: num_inputs_def clear_input_metadata_def)
  show "input_metadata (clear_input_metadata f) index = None"
    by (simp add: input_metadata_def clear_input_metadata_def)
qed


theorem input_metadata_stable_witness:
  "ClearInputMetadata \<notin> set [AddInputMetadata (Descriptor 3 [2, 2] 0), AddNextEdge Edge_empty,
      SetPyobj (Some 9)] \<and>
   0 < length (m_input_metadata (snd (add_input_metadata_undefined (Function_new False 0 [])))) \<and>
   (\<exists>f'. node_steps [AddInputMetadata (Descriptor 3 [2, 2] 0), AddNextEdge Edge_empty,
            SetPyobj (Some 9)] (snd (add_input_metadata_undefined (Function_new False 0 [])))
          = Some f' \<and>
        length (m_input_metadata (snd (add_input_metadata_undefined (Function_new False 0 []))))
          \<le> length (m_input_metadata f') \<and>
        input_metadata f' 0 = Some InputMetadata_empty)"
proof -
  let ?f = "snd (add_input_metadata_undefined (Function_new False 0 []))"
  let ?ops = "[AddInputMetadata (Descriptor 3 [2, 2] 0), AddNextEdge Edge_empty, SetPyobj (Some 9)]"
  have no_clear: "ClearInputMetadata \<notin> set ?ops"
    by simp
  have len: "length (m_input_metadata ?f) = 1"
    by (simp add: add_input_metadata_undefined_def Function_new_def)
  have before: "input_metadata ?f 0 = Some InputMetadata_empty"
    by (simp add: input_metadata_def add_input_metadata_undefined_def Function_new_def)
  obtain f' where steps: "node_steps ?ops ?f = Some f'"
    by simp
  from input_metadata_stable [of ?ops ?f f'] no_clear steps
  have "length (m_input_metadata ?f) \<le> length (m_input_metadata f')"
    and "\<forall>index < length (m_input_metadata ?f). input_metadata f' index = input_metadata ?f index"
    by blast+
  with len before have "length (m_input_metadata ?f) \<le> length (m_input_metadata f')"
    and "input_metadata f' 0 = Some InputMetadata_empty"
    by simp_all
  with no_clear len steps show ?thesis
    by simp
qed

text \<open>
  C2 as stated fails: \<open>clear_input_metadata\<close> is an operation of the public interface,
  and after it a node that had one input slot has none, and its slot 0 is gone.
\<close>

theorem clear_input_metadata_counterexample:
  "num_inputs (snd (add_input_metadata_undefined (Function_new False 0 []))) = 1 \<and>
   input_metadata (snd (add_input_metadata_undefined (Function_new False 0 []))) 0
     = Some InputMetadata_empty \<and>
   num_inputs (clear_input_metadata (snd (add_input_metadata_undefined (Function_new False 0 [])))) = 0 \<and>
   input_metadata (clear_input_metadata (snd (add_input_metadata_undefined (Function_new False 0 [])))) 0
     = None"
  by (simp add: num_inputs_def input_metadata_def clear_input_metadata_def
      add_input_metadata_undefined_def Function_new_def)

lemma m_input_metadata_Function_new [simp]:
  "m_input_metadata (Function_new anomaly_enabled seq edges) = []"
  by (simp add: Function_new_def)

text \<open>
  C9. On a freshly constructed node, after \<open>N\<close> calls of \<open>add_input_metadata\<close> in any
  mix of its three flavors, \<open>num_inputs()\<close> is \<open>N\<close> (as the \<open>uint32_t\<close> that the code
  returns, which has the value \<open>N\<close> whenever \<open>N < 2 ^ 32\<close>), the node holds \<open>N\<close>
  descriptors, the \<open>k\<close>-th call returns the number of inputs immediately before it, which
  is \<open>k\<close>, and \<open>input_metadata(k)\<close> is the descriptor that the \<open>k\<close>-th call supplied.
\<close>

theorem add_input_metadata_calls_spec:
  "add_input_metadata_calls args (Function_new anomaly_enabled seq edges)
     = (input_nrs, f') \<Longrightarrow>
   num_inputs f' = word_of_nat (length args) \<and>
   (length args < 2 ^ 32 \<longrightarrow> unat (num_inputs f') = length args) \<and>
   length (m_input_metadata f') = length args \<and>
   length input_nrs = length args \<and>
   (\<forall>k < length args.
      input_nrs ! k = num_inputs (snd (add_input_metadata_calls (take k args)
        (Function_new anomaly_enabled seq edges))) \<and>
      input_nrs ! k = word_of_nat k \<and>
      input_metadata f' k = Some (descriptor_of (args ! k)))"
  by (auto simp: add_input_metadata_calls_eq num_inputs_def input_metadata_def unat_of_nat
      min_def)

theorem add_input_metadata_calls_spec_witness:
  "add_input_metadata_calls [Descriptor 3 [2, 2] 0, Undefined_input,
       Tensor \<lparr>var_defined = True, var_requires_grad = True, var_type = 4, var_sizes = [5],
         var_device = - 1, var_gradient_edge = Edge_empty\<rparr>] (Function_new False 0 [])
     = ([0, 1, 2],
        (Function_new False 0 [])\<lparr>m_input_metadata :=
          [InputMetadata_new 3 [2, 2] 0, InputMetadata_empty, InputMetadata_new 4 [5] (- 1)]\<rparr>) \<and>
   num_inputs ((Function_new False 0 [])\<lparr>m_input_metadata :=
          [InputMetadata_new 3 [2, 2] 0, InputMetadata_empty, InputMetadata_new 4 [5] (- 1)]\<rparr>) = 3 \<and>
   input_metadata ((Function_new False 0 [])\<lparr>m_input_metadata :=
          [InputMetadata_new 3 [2, 2] 0, InputMetadata_empty, InputMetadata_new 4 [5] (- 1)]\<rparr>) 2
     = Some (InputMetadata_new 4 [5] (- 1))"
proof -
  let ?args = "[Descriptor 3 [2, 2] 0, Undefined_input,
       Tensor \<lparr>var_defined = True, var_requires_grad = True, var_type = 4, var_sizes = [5],
         var_device = - 1, var_gradient_edge = Edge_empty\<rparr>]"
  let ?f' = "(Function_new False 0 [])\<lparr>m_input_metadata :=
          [InputMetadata_new 3 [2, 2] 0, InputMetadata_empty, InputMetadata_new 4 [5] (- 1)]\<rparr>"
  have calls: "add_input_metadata_calls ?args (Function_new False 0 []) = ([0, 1, 2], ?f')"
    by (simp add: add_input_metadata_def add_input_metadata_tensor_def
        add_input_metadata_undefined_def InputMetadata_of_tensor_def)
  from add_input_metadata_calls_spec [OF calls]
  have "num_inputs ?f' = word_of_nat (length ?args)"
    and "\<forall>k < length ?args. input_metadata ?f' k = Some (descriptor_of (?args ! k))"
    by blast+
  then have "num_inputs ?f' = 3" and "input_metadata ?f' 2 = Some (InputMetadata_new 4 [5] (- 1))"
    by (simp_all add: InputMetadata_of_tensor_def)
  with calls show ?thesis
    by simp
qed


section \<open>Properties of the free functions\<close>

text \<open>
  C5. For every sequence of input values, when gradient tracking is disabled,
  \<open>collect_next_edges\<close> returns the empty edge list and visits none of the values.
\<close>

theorem collect_next_edges_disabled:
  "collect_next_edges False variables = ([], 0)"
  by (simp add: collect_next_edges_def)

lemma fold_call:
  "fold MakeNextFunctionList_call vs mk =
     mk\<lparr>make_next_edges := make_next_edges mk @
            map (\<lambda>v. if defined v then gradient_edge v else Edge_empty) vs,
        visited := visited mk + length vs\<rparr>"
  by (induction vs arbitrary: mk) (simp_all add: MakeNextFunctionList_call_def)

lemma apply_arg_eq:
  "MakeNextFunctionList_apply_arg a mk =
     mk\<lparr>make_next_edges := make_next_edges mk @
            map (\<lambda>v. if defined v then gradient_edge v else Edge_empty) (flatten_arg a),
        visited := visited mk + length (flatten_arg a)\<rparr>"
  by (cases a) (simp_all add: fold_call MakeNextFunctionList_call_def)

lemma apply_eq:
  "MakeNextFunctionList_apply args mk =
     mk\<lparr>make_next_edges := make_next_edges mk @
            map (\<lambda>v. if defined v then gradient_edge v else Edge_empty) (flatten_args args),
        visited := visited mk + length (flatten_args args)\<rparr>"
  unfolding MakeNextFunctionList_apply_def flatten_args_def
  by (induction args arbitrary: mk) (simp_all add: apply_arg_eq)

text \<open>
  C6. For every sequence of input values, when gradient tracking is enabled,
  \<open>collect_next_edges\<close> returns one edge for each flattened input value, in encounter
  order: the \<open>i\<close>-th edge is the gradient edge of the \<open>i\<close>-th value when that value is
  defined, and the empty edge, which is invalid, when it is undefined.
\<close>

theorem collect_next_edges_enabled:
  "length (fst (collect_next_edges True variables)) = length (flatten_args variables) \<and>
   fst (collect_next_edges True variables) =
     map (\<lambda>v. if defined v then gradient_edge v else Edge_empty) (flatten_args variables) \<and>
   (\<forall>i < length (flatten_args variables).
      fst (collect_next_edges True variables) ! i =
        (if defined (flatten_args variables ! i) then gradient_edge (flatten_args variables ! i)
         else Edge_empty)) \<and>
   \<not> is_valid Edge_empty"
  by (simp add: collect_next_edges_def apply_eq is_valid_Edge_empty)

theorem collect_next_edges_enabled_witness:
  "flatten_args
     [Single \<lparr>var_defined = True, var_requires_grad = True, var_type = 4, var_sizes = [5],
        var_device = - 1, var_gradient_edge = Edge_new 8 2\<rparr>,
      Group [\<lparr>var_defined = False, var_requires_grad = False, var_type = 0, var_sizes = [],
        var_device = - 1, var_gradient_edge = Edge_new 9 0\<rparr>]]
     = [\<lparr>var_defined = True, var_requires_grad = True, var_type = 4, var_sizes = [5],
        var_device = - 1, var_gradient_edge = Edge_new 8 2\<rparr>,
        \<lparr>var_defined = False, var_requires_grad = False, var_type = 0, var_sizes = [],
        var_device = - 1, var_gradient_edge = Edge_new 9 0\<rparr>] \<and>
   fst (collect_next_edges True
     [Single \<lparr>var_defined = True, var_requires_grad = True, var_type = 4, var_sizes = [5],
        var_device = - 1, var_gradient_edge = Edge_new 8 2\<rparr>,
      Group [\<lparr>var_defined = False, var_requires_grad = False, var_type = 0, var_sizes = [],
        var_device = - 1, var_gradient_edge = Edge_new 9 0\<rparr>]])
     = [Edge_new 8 2, Edge_empty]"
  using collect_next_edges_enabled
    [of "[Single \<lparr>var_defined = True, var_requires_grad = True, var_type = 4, var_sizes = [5],
        var_device = - 1, var_gradient_edge = Edge_new 8 2\<rparr>,
      Group [\<lparr>var_defined = False, var_requires_grad = False, var_type = 0, var_sizes = [],
        var_device = - 1, var_gradient_edge = Edge_new 9 0\<rparr>]]"]
  by (simp add: flatten_args_def defined_def gradient_edge_def)

text \<open>
  C8. For every value and every node, \<open>create_gradient_edge(value, node)\<close> increases
  the node's \<open>num_inputs()\<close> by exactly one (the node gets exactly one more descriptor),
  and afterwards the value's gradient edge is the pair of the node and the value of
  \<open>num_inputs()\<close> before the call.
\<close>

theorem create_gradient_edge_spec:
  "store function = Some f \<Longrightarrow>
   \<exists>variable' store' f'.
     create_gradient_edge variable function store = Some (variable', store') \<and>
     store' function = Some f' \<and>
     num_inputs f' = num_inputs f + 1 \<and>
     length (m_input_metadata f') = length (m_input_metadata f) + 1 \<and>
     gradient_edge variable' = Edge_new function (num_inputs f)"
  by (simp add: create_gradient_edge_def add_input_metadata_tensor_def set_gradient_edge_def
      gradient_edge_def num_inputs_def)

theorem create_gradient_edge_spec_witness:
  "[5 \<mapsto> Function_new False 0 []] 5 = Some (Function_new False 0 []) \<and>
   num_inputs (Function_new False 0 []) = 0 \<and>
   (\<exists>variable' store' f'.
      create_gradient_edge
        \<lparr>var_defined = True, var_requires_grad = True, var_type = 4, var_sizes = [5],
          var_device = - 1, var_gradient_edge = Edge_empty\<rparr> 5 [5 \<mapsto> Function_new False 0 []]
        = Some (variable', store') \<and>
      store' 5 = Some f' \<and> num_inputs f' = 1 \<and> gradient_edge variable' = Edge_new 5 0)"
proof -
  have stored: "[5 \<mapsto> Function_new False 0 []] (5::nat) = Some (Function_new False 0 [])"
    by simp
  have zero: "num_inputs (Function_new False 0 []) = 0"
    by (simp add: num_inputs_def)
  let ?v = "\<lparr>var_defined = True, var_requires_grad = True, var_type = 4, var_sizes = [5],
          var_device = - 1, var_gradient_edge = Edge_empty\<rparr>"
  from create_gradient_edge_spec
    [of "[5 \<mapsto> Function_new False 0 []]" 5 "Function_new False 0 []" ?v, OF stored]
    zero stored
  show ?thesis
    by simp blast
qed


section \<open>Properties of the profiler\<close>

subsection \<open>Recording while disabled\<close>

lemma pushRange_disabled: "state s = Disabled \<Longrightarrow> pushRange cfg t name s = (None, s)"
  by (simp add: pushRange_def)

lemma popRange_disabled: "state s = Disabled \<Longrightarrow> popRange cfg t s = (None, s)"
  by (simp add: popRange_def)

text \<open>
  C1 on the code. \<open>pushRange\<close> and \<open>popRange\<close> return at once while the state is
  Disabled (the two lemmas above), but \<open>mark\<close> has no such guard: called in the initial,
  Disabled state on a thread without an event list, it returns normally, leaves the state
  Disabled, registers a new event list in the registry, advances the thread-id counter and
  appends a Mark event to the thread's list.
\<close>

theorem mark_disabled_records:
  "state profiler_init = Disabled \<and>
   all_event_lists profiler_init = [] \<and>
   next_thread_id profiler_init = 0 \<and>
   thread_events profiler_init 0 = [] \<and>
   fst (mark \<lparr>USE_CUDA = False, cudaGetDeviceCount = Inr 0\<rparr> 0 ''x'' True profiler_init) = None \<and>
   state (snd (mark \<lparr>USE_CUDA = False, cudaGetDeviceCount = Inr 0\<rparr> 0 ''x'' True profiler_init)) = Disabled \<and>
   all_event_lists (snd (mark \<lparr>USE_CUDA = False, cudaGetDeviceCount = Inr 0\<rparr> 0 ''x'' True profiler_init)) = [0] \<and>
   next_thread_id (snd (mark \<lparr>USE_CUDA = False, cudaGetDeviceCount = Inr 0\<rparr> 0 ''x'' True profiler_init)) = 1 \<and>
   thread_events (snd (mark \<lparr>USE_CUDA = False, cudaGetDeviceCount = Inr 0\<rparr> 0 ''x'' True profiler_init)) 0
     = [\<lparr>ev_kind = Mark, ev_name = ''x'', ev_thread_id = 0, ev_cuda = False\<rparr>]"
  by (simp add: mark_def getEventList_def record_event_def profiler_init_def thread_events_def)

subsection \<open>What a mark does\<close>

lemma mark_state: "state (snd (mark cfg t name include_cuda s)) = state s"
  by (simp add: mark_def getEventList_def record_event_def Let_def split: option.splits)

lemma pushRange_state: "state (snd (pushRange cfg t name s)) = state s"
  by (simp add: pushRange_def getEventList_def record_event_def Let_def split: option.splits)

lemma popRange_state: "state (snd (popRange cfg t s)) = state s"
  by (simp add: popRange_def getEventList_def record_event_def Let_def split: option.splits)

lemma thread_exit_state: "state (thread_exit t s) = state s"
  by (simp add: thread_exit_def split: option.splits)

lemma for_each_state:
  assumes "\<And>i s. state (snd (op i s)) = state s"
  shows "state (snd (for_each is op s)) = state s"
proof (induction "is" arbitrary: s)
  case Nil
  show ?case by simp
next
  case (Cons i "is")
  obtain r s1 where step: "op i s = (r, s1)"
    by (cases "op i s")
  with assms [of i s] have "state s1 = state s"
    by simp
  with step Cons.IH [of s1] show ?case
    by (cases r) simp_all
qed

lemma onEachDevice_mark_state:
  "state (snd (onEachDevice cfg (\<lambda>d. mark cfg t name include_cuda) s)) = state s"
proof (cases "cudaGetDeviceCount cfg")
  case (Inl msg)
  then show ?thesis
    by (simp add: onEachDevice_def)
next
  case (Inr count)
  have "state (snd (for_each [0 ..< count] (\<lambda>d. mark cfg t name include_cuda) s)) = state s"
    by (rule for_each_state) (rule mark_state)
  with Inr show ?thesis
    by (simp add: onEachDevice_def)
qed

lemma cuda_startup_state: "state (snd (cuda_startup cfg t s)) = state s"
proof (cases "USE_CUDA cfg \<and> state s = CUDA")
  case False
  then show ?thesis
    by (auto simp: cuda_startup_def)
next
  case True
  obtain r s1 where loop:
    "for_each [0 ..< 5] (\<lambda>i. onEachDevice cfg (\<lambda>d. mark cfg t ''__cuda_startup'' True)) s = (r, s1)"
    by (cases "for_each [0 ..< 5] (\<lambda>i. onEachDevice cfg (\<lambda>d. mark cfg t ''__cuda_startup'' True)) s")
  have "state (snd (for_each [0 ..< 5]
      (\<lambda>i. onEachDevice cfg (\<lambda>d. mark cfg t ''__cuda_startup'' True)) s)) = state s"
    by (rule for_each_state) (rule onEachDevice_mark_state)
  with loop have s1: "state s1 = state s"
    by simp
  from True loop s1 onEachDevice_mark_state [of cfg t "''__cuda_start_event''" True s1]
  show ?thesis
    by (cases r) (simp_all add: cuda_startup_def)
qed

lemma enableProfiler_state:
  "state (snd (enableProfiler cfg t new_state s)) = state s \<or>
   state (snd (enableProfiler cfg t new_state s)) = new_state \<and> (new_state = NVTX \<longrightarrow> USE_CUDA cfg)"
proof -
  let ?s0 = "s\<lparr>state := new_state\<rparr>"
  obtain r s1 where cs: "cuda_startup cfg t ?s0 = (r, s1)"
    by (cases "cuda_startup cfg t ?s0")
  with cuda_startup_state [of cfg t ?s0] have "state s1 = new_state"
    by simp
  with cs mark_state [of cfg t "''__start_profile''" False s1] show ?thesis
    by (cases r) (auto simp: enableProfiler_def)
qed

lemma disableProfiler_state:
  "state (snd (disableProfiler cfg t s)) = state s \<or> state (snd (disableProfiler cfg t s)) = Disabled"
proof -
  obtain r s1 where m: "mark cfg t ''__stop_profile'' True s = (r, s1)"
    by (cases "mark cfg t ''__stop_profile'' True s")
  with mark_state [of cfg t "''__stop_profile''" True s] have "state s1 = state s"
    by simp
  with m show ?thesis
    by (cases r) (auto simp: disableProfiler_def Let_def split: prod.splits)
qed

lemma reachable_backend:
  "reachable cfg s \<Longrightarrow> state s = NVTX \<Longrightarrow> USE_CUDA cfg"
proof (induction rule: reachable.induct)
  case reachable_init
  then show ?case by (simp add: profiler_init_def)
next
  case (reachable_mark s t name include_cuda r s')
  with mark_state [of cfg t name include_cuda s] show ?case by simp
next
  case (reachable_pushRange s t name r s')
  with pushRange_state [of cfg t name s] show ?case by simp
next
  case (reachable_popRange s t r s')
  with popRange_state [of cfg t s] show ?case by simp
next
  case (reachable_enable s t new_state r s')
  with enableProfiler_state [of cfg t new_state s] show ?case by auto
next
  case (reachable_disable s t report s')
  with disableProfiler_state [of cfg t s] show ?case by auto
next
  case (reachable_exit s t)
  then show ?case by (simp add: thread_exit_state)
qed


subsection \<open>Enabling and disabling\<close>

lemma mark_event_cong:
  "recording_id s' t = recording_id s t \<Longrightarrow> mark_event s' t name b = mark_event s t name b"
  by (simp add: mark_event_def)

lemma mark_sampling:
  "state s \<noteq> NVTX \<Longrightarrow>
   \<exists>s'. mark cfg t name include_cuda s = (None, s') \<and> state s' = state s \<and>
        nvtx s' = nvtx s \<and> recording_id s' t = recording_id s t \<and>
        thread_events s' t = thread_events s t @
          [mark_event s t name (include_cuda \<and> state s = CUDA)]"
  by (cases "event_list s t")
    (simp_all add: mark_def getEventList_def record_event_def thread_events_def
      recording_id_def mark_event_def Let_def)

lemma for_each_replicate:
  assumes step: "\<And>i s. state s = st \<Longrightarrow>
    \<exists>s'. op i s = (None, s') \<and> state s' = st \<and> nvtx s' = nvtx s \<and>
      recording_id s' t = recording_id s t \<and>
      thread_events s' t = thread_events s t @ replicate k (mark_event s t name b)"
  shows "state s = st \<Longrightarrow>
    \<exists>s'. for_each is op s = (None, s') \<and> state s' = st \<and> nvtx s' = nvtx s \<and>
      recording_id s' t = recording_id s t \<and>
      thread_events s' t = thread_events s t @ replicate (length is * k) (mark_event s t name b)"
proof (induction "is" arbitrary: s)
  case Nil
  then show ?case by simp
next
  case (Cons i "is")
  from step [OF Cons.prems, of i] obtain s1 where
    one: "op i s = (None, s1)" and st1: "state s1 = st" and nv1: "nvtx s1 = nvtx s"
    and id1: "recording_id s1 t = recording_id s t"
    and ev1: "thread_events s1 t = thread_events s t @ replicate k (mark_event s t name b)"
    by blast
  from Cons.IH [OF st1] obtain s' where
    rest: "for_each is op s1 = (None, s')" and st': "state s' = st" and nv': "nvtx s' = nvtx s1"
    and id': "recording_id s' t = recording_id s1 t"
    and ev': "thread_events s' t =
      thread_events s1 t @ replicate (length is * k) (mark_event s1 t name b)"
    by blast
  from one rest have "for_each (i # is) op s = (None, s')"
    by simp
  moreover from ev1 ev' mark_event_cong [OF id1, of name b]
  have "thread_events s' t =
      thread_events s t @ replicate (length (i # is) * k) (mark_event s t name b)"
    by (simp add: replicate_add)
  ultimately show ?case
    using st' nv' nv1 id' id1 by simp
qed

lemma onEachDevice_marks:
  assumes count: "cudaGetDeviceCount cfg = Inr n" and st: "state s = st" and "st \<noteq> NVTX"
  shows "\<exists>s'. onEachDevice cfg (\<lambda>d. mark cfg t name include_cuda) s = (None, s') \<and>
      state s' = st \<and> nvtx s' = nvtx s \<and> recording_id s' t = recording_id s t \<and>
      thread_events s' t =
        thread_events s t @ replicate n (mark_event s t name (include_cuda \<and> st = CUDA))"
proof -
  have "\<exists>s'. for_each [0 ..< n] (\<lambda>d. mark cfg t name include_cuda) s = (None, s') \<and>
      state s' = st \<and> nvtx s' = nvtx s \<and> recording_id s' t = recording_id s t \<and>
      thread_events s' t = thread_events s t @
        replicate (length [0 ..< n] * 1) (mark_event s t name (include_cuda \<and> st = CUDA))"
  proof (rule for_each_replicate [OF _ st])
    fix i :: nat and s0 :: profiler
    assume "state s0 = st"
    with \<open>st \<noteq> NVTX\<close> mark_sampling [of s0 cfg t name include_cuda]
    show "\<exists>s'. mark cfg t name include_cuda s0 = (None, s') \<and> state s' = st \<and>
        nvtx s' = nvtx s0 \<and> recording_id s' t = recording_id s0 t \<and>
        thread_events s' t = thread_events s0 t @
          replicate 1 (mark_event s0 t name (include_cuda \<and> st = CUDA))"
      by auto
  qed
  with count show ?thesis
    by (simp add: onEachDevice_def)
qed

lemma cuda_startup_marks:
  assumes count: "cudaGetDeviceCount cfg = Inr n" and cuda: "USE_CUDA cfg" and st: "state s = CUDA"
  shows "\<exists>s'. cuda_startup cfg t s = (None, s') \<and> state s' = CUDA \<and> nvtx s' = nvtx s \<and>
      recording_id s' t = recording_id s t \<and>
      thread_events s' t = thread_events s t @
        replicate (5 * n) (mark_event s t ''__cuda_startup'' True) @
        replicate n (mark_event s t ''__cuda_start_event'' True)"
proof -
  have "\<exists>s'. for_each [0 ..< 5]
        (\<lambda>i. onEachDevice cfg (\<lambda>d. mark cfg t ''__cuda_startup'' True)) s = (None, s') \<and>
      state s' = CUDA \<and> nvtx s' = nvtx s \<and> recording_id s' t = recording_id s t \<and>
      thread_events s' t = thread_events s t @
        replicate (length [0 ..< 5] * n) (mark_event s t ''__cuda_startup'' True)"
  proof (rule for_each_replicate [OF _ st])
    fix i :: nat and s0 :: profiler
    assume "state s0 = CUDA"
    from onEachDevice_marks [OF count this, of t "''__cuda_startup''" True]
    show "\<exists>s'. onEachDevice cfg (\<lambda>d. mark cfg t ''__cuda_startup'' True) s0 = (None, s') \<and>
        state s' = CUDA \<and> nvtx s' = nvtx s0 \<and> recording_id s' t = recording_id s0 t \<and>
        thread_events s' t = thread_events s0 t @
          replicate n (mark_event s0 t ''__cuda_startup'' True)"
      by simp
  qed
  then obtain s1 where
    loop: "for_each [0 ..< 5]
        (\<lambda>i. onEachDevice cfg (\<lambda>d. mark cfg t ''__cuda_startup'' True)) s = (None, s1)"
    and st1: "state s1 = CUDA" and nv1: "nvtx s1 = nvtx s"
    and id1: "recording_id s1 t = recording_id s t"
    and ev1: "thread_events s1 t = thread_events s t @
        replicate (5 * n) (mark_event s t ''__cuda_startup'' True)"
    by auto
  from onEachDevice_marks [OF count st1, of t "''__cuda_start_event''" True]
  obtain s' where
    last: "onEachDevice cfg (\<lambda>d. mark cfg t ''__cuda_start_event'' True) s1 = (None, s')"
    and st': "state s' = CUDA" and nv': "nvtx s' = nvtx s1"
    and id': "recording_id s' t = recording_id s1 t"
    and ev': "thread_events s' t = thread_events s1 t @
        replicate n (mark_event s1 t ''__cuda_start_event'' True)"
    by auto
  from cuda st loop last have "cuda_startup cfg t s = (None, s')"
    by (simp add: cuda_startup_def)
  moreover from ev1 ev' mark_event_cong [OF id1, of "''__cuda_start_event''" True]
  have "thread_events s' t = thread_events s t @
        replicate (5 * n) (mark_event s t ''__cuda_startup'' True) @
        replicate n (mark_event s t ''__cuda_start_event'' True)"
    by simp
  ultimately show ?thesis
    using st' nv' nv1 id' id1 by simp
qed

lemma cuda_startup_query_fails:
  assumes "cudaGetDeviceCount cfg = Inl msg" and "USE_CUDA cfg" and "state s = CUDA"
  shows "cuda_startup cfg t s = (Some (RuntimeError msg), s)"
proof -
  have "[0 ..< 5] = 0 # [1 ..< 5]"
    by (simp add: upt_conv_Cons)
  with assms show ?thesis
    by (simp add: cuda_startup_def onEachDevice_def)
qed

text \<open>
  C10, as the code has it. When \<open>enableProfiler\<close> is called with the same active state
  as the current ProfilerState, neither state check fires and the ProfilerState stays that
  state. With the external marker backend on a CUDA build the call returns normally and
  makes the call \<open>nvtxMarkA("__start_profile")\<close> again. With the CPU backend, and with
  the GPU backend on a build without CUDA, it returns normally and appends exactly the Mark
  event \<open>__start_profile\<close> to the calling thread's list. With the GPU backend on a CUDA
  build: when the device-count query answers \<open>n\<close>, it returns normally and appends
  \<open>5 * n\<close> startup marks, \<open>n\<close> start-event marks and then the Mark event
  \<open>__start_profile\<close>; when the query fails, the call raises the query's error and the
  globals are as before, with no mark emitted. (The external marker backend on a build
  without CUDA, which no call sequence reaches, raises the unsupported-backend error.)
\<close>

theorem enableProfiler_same_state:
  assumes same: "state s = new_state" and active: "new_state \<noteq> Disabled"
  shows
  "(new_state = NVTX \<and> USE_CUDA cfg \<longrightarrow>
      enableProfiler cfg t new_state s =
        (None, s\<lparr>nvtx := nvtx s @ [NvtxMarkA ''__start_profile'']\<rparr>)) \<and>
   (new_state = CPU \<or> new_state = CUDA \<and> \<not> USE_CUDA cfg \<longrightarrow>
      (\<exists>s'. enableProfiler cfg t new_state s = (None, s') \<and> state s' = new_state \<and>
         thread_events s' t = thread_events s t @ [mark_event s t ''__start_profile'' False])) \<and>
   (new_state = CUDA \<and> USE_CUDA cfg \<longrightarrow>
      (\<forall>n. cudaGetDeviceCount cfg = Inr n \<longrightarrow>
         (\<exists>s'. enableProfiler cfg t new_state s = (None, s') \<and> state s' = new_state \<and>
            thread_events s' t = thread_events s t @
              replicate (5 * n) (mark_event s t ''__cuda_startup'' True) @
              replicate n (mark_event s t ''__cuda_start_event'' True) @
              [mark_event s t ''__start_profile'' False])) \<and>
      (\<forall>msg. cudaGetDeviceCount cfg = Inl msg \<longrightarrow>
         enableProfiler cfg t new_state s = (Some (RuntimeError msg), s))) \<and>
   (new_state = NVTX \<and> \<not> USE_CUDA cfg \<longrightarrow>
      enableProfiler cfg t new_state s =
        (Some (RuntimeError ''Can't use NVTX profiler - PyTorch was compiled without CUDA''), s))"
proof (intro conjI impI allI)
  from same have upd: "s\<lparr>state := new_state\<rparr> = s"
    by simp
  {
    assume "new_state = NVTX \<and> USE_CUDA cfg"
    with same show "enableProfiler cfg t new_state s =
        (None, s\<lparr>nvtx := nvtx s @ [NvtxMarkA ''__start_profile'']\<rparr>)"
      by (simp add: enableProfiler_def upd cuda_startup_def mark_def)
  next
    assume "new_state = NVTX \<and> \<not> USE_CUDA cfg"
    then show "enableProfiler cfg t new_state s =
        (Some (RuntimeError ''Can't use NVTX profiler - PyTorch was compiled without CUDA''), s)"
      by (simp add: enableProfiler_def)
  next
    assume c: "new_state = CPU \<or> new_state = CUDA \<and> \<not> USE_CUDA cfg"
    with same have cs: "cuda_startup cfg t s = (None, s)" and "state s \<noteq> NVTX"
      by (auto simp: cuda_startup_def)
    from mark_sampling [OF this(2), of cfg t "''__start_profile''" False] obtain s' where
      "mark cfg t ''__start_profile'' False s = (None, s')" "state s' = state s"
      "thread_events s' t = thread_events s t @ [mark_event s t ''__start_profile'' False]"
      by auto
    with c same cs active
    show "\<exists>s'. enableProfiler cfg t new_state s = (None, s') \<and> state s' = new_state \<and>
         thread_events s' t = thread_events s t @ [mark_event s t ''__start_profile'' False]"
      by (auto simp: enableProfiler_def upd)
  next
    fix n
    assume c: "new_state = CUDA \<and> USE_CUDA cfg" and count: "cudaGetDeviceCount cfg = Inr n"
    with same have st: "state s = CUDA" and cuda: "USE_CUDA cfg"
      by simp_all
    from cuda_startup_marks [OF count cuda st, of t] obtain s1 where
      cs: "cuda_startup cfg t s = (None, s1)" and st1: "state s1 = CUDA"
      and id1: "recording_id s1 t = recording_id s t"
      and ev1: "thread_events s1 t = thread_events s t @
        replicate (5 * n) (mark_event s t ''__cuda_startup'' True) @
        replicate n (mark_event s t ''__cuda_start_event'' True)"
      by auto
    from st1 have "state s1 \<noteq> NVTX"
      by simp
    from mark_sampling [OF this, of cfg t "''__start_profile''" False] obtain s' where
      m: "mark cfg t ''__start_profile'' False s1 = (None, s')" and st': "state s' = state s1"
      and ev': "thread_events s' t = thread_events s1 t @ [mark_event s1 t ''__start_profile'' False]"
      by auto
    from st have upd': "s\<lparr>state := CUDA\<rparr> = s"
      by simp
    from c same cs m have "enableProfiler cfg t new_state s = (None, s')"
      by (simp add: enableProfiler_def upd')
    moreover from ev1 ev' mark_event_cong [OF id1, of "''__start_profile''" False]
    have "thread_events s' t = thread_events s t @
        replicate (5 * n) (mark_event s t ''__cuda_startup'' True) @
        replicate n (mark_event s t ''__cuda_start_event'' True) @
        [mark_event s t ''__start_profile'' False]"
      by simp
    ultimately
    show "\<exists>s'. enableProfiler cfg t new_state s = (None, s') \<and> state s' = new_state \<and>
         thread_events s' t = thread_events s t @
           replicate (5 * n) (mark_event s t ''__cuda_startup'' True) @
           replicate n (mark_event s t ''__cuda_start_event'' True) @
           [mark_event s t ''__start_profile'' False]"
      using st' st1 c by simp
  next
    fix msg
    assume c: "new_state = CUDA \<and> USE_CUDA cfg" and q: "cudaGetDeviceCount cfg = Inl msg"
    with same have upd': "s\<lparr>state := CUDA\<rparr> = s"
      by simp
    from c same cuda_startup_query_fails [OF q, of s t]
    show "enableProfiler cfg t new_state s = (Some (RuntimeError msg), s)"
      by (simp add: enableProfiler_def upd')
  }
qed


theorem enableProfiler_same_state_witness:
  "(state (snd (enableProfiler \<lparr>USE_CUDA = False, cudaGetDeviceCount = Inr 0\<rparr> 0 CPU profiler_init)) = CPU \<and> CPU \<noteq> Disabled \<and>
    thread_events (snd (enableProfiler \<lparr>USE_CUDA = False, cudaGetDeviceCount = Inr 0\<rparr> 0 CPU profiler_init)) 0 = [\<lparr>ev_kind = Mark, ev_name = ''__start_profile'', ev_thread_id = 0, ev_cuda = False\<rparr>] \<and>
    (\<exists>s'. enableProfiler \<lparr>USE_CUDA = False, cudaGetDeviceCount = Inr 0\<rparr> 0 CPU (snd (enableProfiler \<lparr>USE_CUDA = False, cudaGetDeviceCount = Inr 0\<rparr> 0 CPU profiler_init)) = (None, s') \<and> state s' = CPU \<and>
       thread_events s' 0 = [\<lparr>ev_kind = Mark, ev_name = ''__start_profile'', ev_thread_id = 0, ev_cuda = False\<rparr>, \<lparr>ev_kind = Mark, ev_name = ''__start_profile'', ev_thread_id = 0, ev_cuda = False\<rparr>])) \<and>
   (state (snd (enableProfiler \<lparr>USE_CUDA = True, cudaGetDeviceCount = Inr 1\<rparr> 0 CUDA profiler_init)) = CUDA \<and> CUDA \<noteq> Disabled \<and>
    thread_events (snd (enableProfiler \<lparr>USE_CUDA = True, cudaGetDeviceCount = Inr 1\<rparr> 0 CUDA profiler_init)) 0 = replicate 5 \<lparr>ev_kind = Mark, ev_name = ''__cuda_startup'', ev_thread_id = 0, ev_cuda = True\<rparr> @ [\<lparr>ev_kind = Mark, ev_name = ''__cuda_start_event'', ev_thread_id = 0, ev_cuda = True\<rparr>, \<lparr>ev_kind = Mark, ev_name = ''__start_profile'', ev_thread_id = 0, ev_cuda = False\<rparr>] \<and>
    (\<exists>s'. enableProfiler \<lparr>USE_CUDA = True, cudaGetDeviceCount = Inr 1\<rparr> 0 CUDA (snd (enableProfiler \<lparr>USE_CUDA = True, cudaGetDeviceCount = Inr 1\<rparr> 0 CUDA profiler_init)) = (None, s') \<and> state s' = CUDA \<and>
       thread_events s' 0 = (replicate 5 \<lparr>ev_kind = Mark, ev_name = ''__cuda_startup'', ev_thread_id = 0, ev_cuda = True\<rparr> @ [\<lparr>ev_kind = Mark, ev_name = ''__cuda_start_event'', ev_thread_id = 0, ev_cuda = True\<rparr>, \<lparr>ev_kind = Mark, ev_name = ''__start_profile'', ev_thread_id = 0, ev_cuda = False\<rparr>]) @ (replicate 5 \<lparr>ev_kind = Mark, ev_name = ''__cuda_startup'', ev_thread_id = 0, ev_cuda = True\<rparr> @ [\<lparr>ev_kind = Mark, ev_name = ''__cuda_start_event'', ev_thread_id = 0, ev_cuda = True\<rparr>, \<lparr>ev_kind = Mark, ev_name = ''__start_profile'', ev_thread_id = 0, ev_cuda = False\<rparr>]))) \<and>
   (state (snd (enableProfiler \<lparr>USE_CUDA = True, cudaGetDeviceCount = Inr 1\<rparr> 0 NVTX profiler_init)) = NVTX \<and> NVTX \<noteq> Disabled \<and>
    nvtx (snd (enableProfiler \<lparr>USE_CUDA = True, cudaGetDeviceCount = Inr 1\<rparr> 0 NVTX profiler_init)) = [NvtxMarkA ''__start_profile''] \<and>
    enableProfiler \<lparr>USE_CUDA = True, cudaGetDeviceCount = Inr 1\<rparr> 0 NVTX (snd (enableProfiler \<lparr>USE_CUDA = True, cudaGetDeviceCount = Inr 1\<rparr> 0 NVTX profiler_init)) =
      (None, (snd (enableProfiler \<lparr>USE_CUDA = True, cudaGetDeviceCount = Inr 1\<rparr> 0 NVTX profiler_init))\<lparr>nvtx := [NvtxMarkA ''__start_profile'', NvtxMarkA ''__start_profile'']\<rparr>))"
proof -
  let ?cfg0 = "\<lparr>USE_CUDA = False, cudaGetDeviceCount = Inr 0\<rparr>"
  let ?cfg1 = "\<lparr>USE_CUDA = True, cudaGetDeviceCount = Inr 1\<rparr>"
  let ?cpu = "snd (enableProfiler ?cfg0 0 CPU profiler_init)"
  let ?cuda = "snd (enableProfiler ?cfg1 0 CUDA profiler_init)"
  let ?nvtx = "snd (enableProfiler ?cfg1 0 NVTX profiler_init)"
  let ?sp = "\<lparr>ev_kind = Mark, ev_name = ''__start_profile'', ev_thread_id = 0, ev_cuda = False\<rparr>"
  let ?su = "\<lparr>ev_kind = Mark, ev_name = ''__cuda_startup'', ev_thread_id = 0, ev_cuda = True\<rparr>"
  let ?se = "\<lparr>ev_kind = Mark, ev_name = ''__cuda_start_event'', ev_thread_id = 0, ev_cuda = True\<rparr>"
  have upt5: "[0 ..< 5] = [0, 1, 2, 3, 4]"
    by code_simp
  have rep5: "replicate 5 x = [x, x, x, x, x]" for x :: Event
    by (simp add: eval_nat_numeral)
  have cpu: "state ?cpu = CPU" "recording_id ?cpu 0 = 0" "thread_events ?cpu 0 = [?sp]"
    by (simp_all add: enableProfiler_def cuda_startup_def mark_def getEventList_def
        record_event_def profiler_init_def thread_events_def recording_id_def)
  have cuda: "state ?cuda = CUDA" "recording_id ?cuda 0 = 0"
    "thread_events ?cuda 0 = replicate 5 ?su @ [?se, ?sp]"
    by (simp_all add: enableProfiler_def cuda_startup_def onEachDevice_def upt5 rep5 mark_def
        getEventList_def record_event_def profiler_init_def thread_events_def recording_id_def)
  have nvtx: "state ?nvtx = NVTX" "nvtx ?nvtx = [NvtxMarkA ''__start_profile'']"
    by (simp_all add: enableProfiler_def cuda_startup_def mark_def profiler_init_def)
  from enableProfiler_same_state [OF cpu(1), of ?cfg0 0] cpu
  have w1: "\<exists>s'. enableProfiler ?cfg0 0 CPU ?cpu = (None, s') \<and> state s' = CPU \<and>
       thread_events s' 0 = [?sp, ?sp]"
    by (simp add: mark_event_def)
  from enableProfiler_same_state [OF cuda(1), of ?cfg1 0] cuda
  have w2: "\<exists>s'. enableProfiler ?cfg1 0 CUDA ?cuda = (None, s') \<and> state s' = CUDA \<and>
       thread_events s' 0 = (replicate 5 ?su @ [?se, ?sp]) @ (replicate 5 ?su @ [?se, ?sp])"
    by (simp add: mark_event_def rep5)
  from enableProfiler_same_state [OF nvtx(1), of ?cfg1 0] nvtx
  have w3: "enableProfiler ?cfg1 0 NVTX ?nvtx =
      (None, ?nvtx\<lparr>nvtx := [NvtxMarkA ''__start_profile'', NvtxMarkA ''__start_profile'']\<rparr>)"
    by simp
  from cpu cuda nvtx w1 w2 w3 show ?thesis
    by simp
qed

text \<open>
  C10 as stated fails: on a CUDA build whose device-count query fails,
  \<open>enableProfiler(CUDA)\<close> from the initial state raises after the state has been set to
  CUDA, and a second \<open>enableProfiler(CUDA)\<close>, the same active state, raises again: it is
  not accepted, and no start-profile mark is emitted.
\<close>

theorem enableProfiler_same_state_counterexample:
  "reachable \<lparr>USE_CUDA = True, cudaGetDeviceCount = Inl ''no CUDA-capable device is detected''\<rparr> (snd (enableProfiler \<lparr>USE_CUDA = True, cudaGetDeviceCount = Inl ''no CUDA-capable device is detected''\<rparr> 0 CUDA profiler_init)) \<and>
   state (snd (enableProfiler \<lparr>USE_CUDA = True, cudaGetDeviceCount = Inl ''no CUDA-capable device is detected''\<rparr> 0 CUDA profiler_init)) = CUDA \<and>
   enableProfiler \<lparr>USE_CUDA = True, cudaGetDeviceCount = Inl ''no CUDA-capable device is detected''\<rparr> 0 CUDA (snd (enableProfiler \<lparr>USE_CUDA = True, cudaGetDeviceCount = Inl ''no CUDA-capable device is detected''\<rparr> 0 CUDA profiler_init))
     = (Some (RuntimeError ''no CUDA-capable device is detected''), (snd (enableProfiler \<lparr>USE_CUDA = True, cudaGetDeviceCount = Inl ''no CUDA-capable device is detected''\<rparr> 0 CUDA profiler_init)))"
proof -
  let ?cfg = "\<lparr>USE_CUDA = True, cudaGetDeviceCount = Inl ''no CUDA-capable device is detected''\<rparr>"
  let ?s = "snd (enableProfiler ?cfg 0 CUDA profiler_init)"
  have upt5: "[0 ..< 5] = [0, 1, 2, 3, 4]"
    by code_simp
  have "reachable ?cfg profiler_init"
    by (rule reachable_init)
  then have r: "reachable ?cfg ?s"
    by (rule reachable_enable [where t = 0 and new_state = CUDA
          and r = "fst (enableProfiler ?cfg 0 CUDA profiler_init)"]) simp
  have first: "enableProfiler ?cfg 0 CUDA profiler_init
      = (Some (RuntimeError ''no CUDA-capable device is detected''), profiler_init\<lparr>state := CUDA\<rparr>)"
    by (simp add: enableProfiler_def cuda_startup_def onEachDevice_def upt5 profiler_init_def)
  then have s: "?s = profiler_init\<lparr>state := CUDA\<rparr>"
    by simp
  have "enableProfiler ?cfg 0 CUDA (profiler_init\<lparr>state := CUDA\<rparr>)
      = (Some (RuntimeError ''no CUDA-capable device is detected''), profiler_init\<lparr>state := CUDA\<rparr>)"
    by (simp add: enableProfiler_def cuda_startup_def onEachDevice_def upt5 profiler_init_def)
  with r s show ?thesis
    by simp
qed

text \<open>
  C7. \<open>disableProfiler\<close> called while the ProfilerState is Disabled raises a runtime
  error, and \<open>enableProfiler\<close> called with an active state different from the currently
  active state raises a runtime error; in both cases the globals of the profiler, and so
  the ProfilerState, are exactly as before the call.
\<close>

theorem profiler_misuse_fails:
  "(state s = Disabled \<longrightarrow>
      disableProfiler cfg t s =
        (Inl (RuntimeError ''can't disable profiler when it's not running''), s)) \<and>
   (state s \<noteq> Disabled \<and> new_state \<noteq> Disabled \<and> new_state \<noteq> state s \<longrightarrow>
      enableProfiler cfg t new_state s =
        (Some (RuntimeError
           (if \<not> USE_CUDA cfg \<and> new_state = NVTX
            then ''Can't use NVTX profiler - PyTorch was compiled without CUDA''
            else ''can't change kind of profiling (e.g. NVTX to CPU) while profiler is running'')),
         s))"
  by (simp add: disableProfiler_def enableProfiler_def)


theorem profiler_misuse_fails_witness:
  "state profiler_init = Disabled \<and>
   disableProfiler \<lparr>USE_CUDA = False, cudaGetDeviceCount = Inr 0\<rparr> 0 profiler_init
     = (Inl (RuntimeError ''can't disable profiler when it's not running''), profiler_init) \<and>
   state (snd (enableProfiler \<lparr>USE_CUDA = False, cudaGetDeviceCount = Inr 0\<rparr> 0 CPU profiler_init)) \<noteq> Disabled \<and> CUDA \<noteq> Disabled \<and> CUDA \<noteq> state (snd (enableProfiler \<lparr>USE_CUDA = False, cudaGetDeviceCount = Inr 0\<rparr> 0 CPU profiler_init)) \<and>
   enableProfiler \<lparr>USE_CUDA = False, cudaGetDeviceCount = Inr 0\<rparr> 0 CUDA (snd (enableProfiler \<lparr>USE_CUDA = False, cudaGetDeviceCount = Inr 0\<rparr> 0 CPU profiler_init))
     = (Some (RuntimeError
          ''can't change kind of profiling (e.g. NVTX to CPU) while profiler is running''), (snd (enableProfiler \<lparr>USE_CUDA = False, cudaGetDeviceCount = Inr 0\<rparr> 0 CPU profiler_init)))"
proof -
  have init: "state profiler_init = Disabled"
    by (simp add: profiler_init_def)
  have st: "state (snd (enableProfiler \<lparr>USE_CUDA = False, cudaGetDeviceCount = Inr 0\<rparr> 0 CPU profiler_init)) = CPU"
    by (simp add: enableProfiler_def cuda_startup_def mark_def getEventList_def record_event_def
        profiler_init_def)
  from profiler_misuse_fails [where s = profiler_init and cfg = "\<lparr>USE_CUDA = False, cudaGetDeviceCount = Inr 0\<rparr>"
      and t = 0 and new_state = CPU] init
  have d: "disableProfiler \<lparr>USE_CUDA = False, cudaGetDeviceCount = Inr 0\<rparr> 0 profiler_init
     = (Inl (RuntimeError ''can't disable profiler when it's not running''), profiler_init)"
    by simp
  from profiler_misuse_fails [where s = "snd (enableProfiler \<lparr>USE_CUDA = False, cudaGetDeviceCount = Inr 0\<rparr> 0 CPU profiler_init)" and new_state = CUDA
      and cfg = "\<lparr>USE_CUDA = False, cudaGetDeviceCount = Inr 0\<rparr>" and t = 0] st
  have "enableProfiler \<lparr>USE_CUDA = False, cudaGetDeviceCount = Inr 0\<rparr> 0 CUDA (snd (enableProfiler \<lparr>USE_CUDA = False, cudaGetDeviceCount = Inr 0\<rparr> 0 CPU profiler_init))
     = (Some (RuntimeError
          ''can't change kind of profiling (e.g. NVTX to CPU) while profiler is running''), (snd (enableProfiler \<lparr>USE_CUDA = False, cudaGetDeviceCount = Inr 0\<rparr> 0 CPU profiler_init)))"
    by simp
  with init st d show ?thesis
    by simp
qed


end
